theory Spec2Isabelle
  imports Complex_Main "HOL-Library.Sublist"
begin

section \<open>Bucket tracker (rest/bucket.ts)\<close>

text \<open>
  JavaScript numbers are idealised as real numbers: the rounding of doubles is
  outside the model, and so are NaN and \<open>\<plusminus>Infinity\<close> except where a value of the
  type \<open>number\<close> below is used (the timeout of the client).  Strings are
  lists of characters (code units below 256).  \<open>Date.now()\<close> is an explicit
  argument \<open>now\<close> of the tracker's queries.

  The \<open>processing\<close> field of a bucket holds a promise or \<open>null\<close>; a promise is
  represented by a handle.
\<close>

type_synonym promise = nat

record RateLimitBucket =
  limit :: real
  remaining :: real
  reset :: real
  processing :: "promise option"

text \<open>
  \<open>RateLimitData\<close> (rest/types.ts).  \<open>scope\<close> is a header value cast without a
  check to the union \<open>"user" | "global" | "shared"\<close>, so it stays a string.
\<close>

record RateLimitData =
  limit :: real
  remaining :: real
  reset :: real
  resetAfter :: real
  bucket :: string
  global :: bool
  scope :: "string option"

text \<open>The closure state of \<open>createBucketManager\<close>: two maps and the global deadline.\<close>

record BucketManager =
  buckets :: "string \<rightharpoonup> RateLimitBucket"
  bucketKeys :: "string \<rightharpoonup> string"
  globalReset :: real

definition createBucketManager :: BucketManager where
  "createBucketManager = \<lparr>buckets = Map.empty, bucketKeys = Map.empty, globalReset = 0\<rparr>"

text \<open>\<open>bucketKeys.get(key) ?? key\<close>, then the lookup in \<open>buckets\<close>.\<close>

definition get :: "BucketManager \<Rightarrow> string \<Rightarrow> RateLimitBucket option" where
  "get t key =
     (let bucketKey = (case bucketKeys t key of Some h \<Rightarrow> h | None \<Rightarrow> key)
      in buckets t bucketKey)"

definition set_bucket :: "BucketManager \<Rightarrow> string \<Rightarrow> RateLimitBucket \<Rightarrow> BucketManager" where
  "set_bucket t key b = t\<lparr>buckets := (buckets t)(key \<mapsto> b)\<rparr>"

text \<open>
  \<open>update\<close>.  The guard \<open>if (data.bucket)\<close> is JavaScript truthiness: a string is
  truthy iff it is not empty.  \<open>data.bucket ?? key\<close> falls back to \<open>key\<close> only for
  \<open>null\<close> and \<open>undefined\<close>; \<open>data.bucket\<close> is a string, so the result is always
  \<open>data.bucket\<close>, the empty string included.
  \<open>existing?.processing ?? null\<close> keeps the promise of the bucket being replaced.
\<close>

definition update :: "BucketManager \<Rightarrow> string \<Rightarrow> RateLimitData \<Rightarrow> BucketManager" where
  "update t key data =
     (let t1 = (if bucket data \<noteq> []
                then t\<lparr>bucketKeys := (bucketKeys t)(key \<mapsto> bucket data)\<rparr>
                else t);
          bucketKey = bucket data;
          existing = buckets t1 bucketKey
      in t1\<lparr>buckets := (buckets t1)(bucketKey \<mapsto>
             \<lparr>RateLimitBucket.limit = RateLimitData.limit data,
              remaining = RateLimitData.remaining data,
              reset = RateLimitData.reset data * 1000,
              processing = (case existing of None \<Rightarrow> None
                            | Some b \<Rightarrow> processing b)\<rparr>)\<rparr>)"

definition getDelay :: "BucketManager \<Rightarrow> real \<Rightarrow> string \<Rightarrow> real" where
  "getDelay t now key =
     (if globalReset t > now then globalReset t - now
      else (case get t key of
              None \<Rightarrow> 0
            | Some b \<Rightarrow>
                if RateLimitBucket.remaining b \<le> 0 \<and> RateLimitBucket.reset b > now
                then RateLimitBucket.reset b - now
                else 0))"

definition isLimited :: "BucketManager \<Rightarrow> real \<Rightarrow> string \<Rightarrow> bool" where
  "isLimited t now key = (getDelay t now key > 0)"

definition setGlobalReset :: "BucketManager \<Rightarrow> real \<Rightarrow> BucketManager" where
  "setGlobalReset t r = t\<lparr>globalReset := r\<rparr>"

section \<open>Route key derivation (rest/bucket.ts)\<close>

text \<open>\<open>\d\<close> of a JavaScript regular expression: the ten ASCII digits.\<close>

definition isDigit :: "char \<Rightarrow> bool" where
  "isDigit c = (c \<in> set ''0123456789'')"

text \<open>
  \<open>route.replace(/\/\d+/g, "/:id")\<close>: scanning from the left, a slash followed by
  at least one digit is replaced, together with the whole run of digits, by
  \<open>/:id\<close>; every other character is copied.
\<close>

function replaceIds :: "string \<Rightarrow> string" where
  "replaceIds [] = []"
| "replaceIds (c # cs) =
     (if c = CHR ''/'' \<and> takeWhile isDigit cs \<noteq> []
      then ''/:id'' @ replaceIds (dropWhile isDigit cs)
      else c # replaceIds cs)"
  by pat_completeness auto
termination
  by (relation "measure length") (auto simp: length_dropWhile_le less_Suc_eq_le)

text \<open>
  One attempt of \<open>/\/(channels|guilds|webhooks)\/(\d+)/\<close> at the start of a string,
  for one alternative of the group: the literal \<open>/name/\<close>, then the longest
  non-empty run of digits, which is the second capture group.
\<close>

definition tryRoot :: "string \<Rightarrow> string \<Rightarrow> string option" where
  "tryRoot name s =
     (if prefix (''/'' @ name @ ''/'') s
      then (let d = takeWhile isDigit (drop (length name + 2) s)
            in if d = [] then None else Some d)
      else None)"

text \<open>The alternatives are tried in the order written.\<close>

definition majorAt :: "string \<Rightarrow> string option" where
  "majorAt s =
     (case tryRoot ''channels'' s of
        Some d \<Rightarrow> Some d
      | None \<Rightarrow>
          (case tryRoot ''guilds'' s of
             Some d \<Rightarrow> Some d
           | None \<Rightarrow> tryRoot ''webhooks'' s))"

text \<open>\<open>route.match(...)\<close>: the leftmost position at which an attempt succeeds.\<close>

fun matchMajor :: "string \<Rightarrow> string option" where
  "matchMajor [] = None"
| "matchMajor (c # cs) =
     (case majorAt (c # cs) of Some d \<Rightarrow> Some d | None \<Rightarrow> matchMajor cs)"

text \<open>\<open>majorParams?.[2] ?? ""\<close>.\<close>

definition majorId :: "string \<Rightarrow> string" where
  "majorId route = (case matchMajor route of Some d \<Rightarrow> d | None \<Rightarrow> [])"

definition getRouteKey :: "string \<Rightarrow> string \<Rightarrow> string" where
  "getRouteKey method route = method @ '':'' @ replaceIds route @ '':'' @ majorId route"

section \<open>Client options (rest/client.ts)\<close>

text \<open>
  A JavaScript number with its special values, and the comparison \<open>n <= r\<close> with
  a finite \<open>r\<close>: every comparison with NaN is false.
\<close>

datatype number = Finite real | NaN | PosInfinity | NegInfinity

definition leq :: "number \<Rightarrow> real \<Rightarrow> bool" where
  "leq n r =
     (case n of
        Finite x \<Rightarrow> x \<le> r
      | NaN \<Rightarrow> False
      | PosInfinity \<Rightarrow> False
      | NegInfinity \<Rightarrow> True)"

text \<open>
  \<open>RestOptions\<close> as the interface declares it: every property optional, \<open>None\<close> for
  an absent property.  The values have their declared types, so the checks
  \<open>typeof options.timeout !== "number"\<close> and \<open>typeof options.userAgent !== "string"\<close>
  of \<open>validateOptions\<close> cannot hold and do not appear below.  \<open>authType\<close> is a string
  and \<open>version\<close> a number: the unions \<open>AuthType\<close> and \<open>ApiVersion\<close> are what
  \<open>validateOptions\<close> checks at run time.

  \<open>timeout\<close> is any JavaScript number.  \<open>version\<close> and \<open>retries\<close> are reals:
  \<open>Number.isInteger\<close> is false for NaN and for the infinities, so these three
  values are rejected like every other number that is not an integer.
\<close>

record RestOptions =
  authType :: "string option"
  version :: "real option"
  userAgent :: "string option"
  retries :: "real option"
  timeout :: "number option"

text \<open>\<open>config\<close>: the options merged over \<open>DEFAULT_OPTIONS\<close>.\<close>

record Config =
  authType :: string
  version :: real
  retries :: real
  timeout :: number
  userAgent :: "string option"

text \<open>
  The messages of the \<open>TypeError\<close>s of \<open>validateOptions\<close>.  Each message
  interpolates the offending value; the constructor stands for the message text
  and carries that value.  \<open>InvalidTimeout\<close> is the message
  \<open>Invalid timeout: ... Must be a positive number\<close>.  \<open>InvalidHeader\<close> is the
  message of the \<open>TypeError\<close> of the class \<open>Headers\<close> of the platform, with the name
  and the value it refuses.
\<close>

datatype Message =
    InvalidAuthType string
  | InvalidVersion real
  | InvalidRetries real
  | InvalidTimeout number
  | InvalidUserAgent
  | InvalidHeader string string

text \<open>\<open>ApiErrorDetail\<close> is a pair of \<open>code\<close> and \<open>message\<close> (resources/errors.ts).\<close>

type_synonym ApiErrorDetail = "string \<times> string"

datatype ApiErrorField =
    FieldError "ApiErrorDetail list"
  | NestedErrors "(string \<times> ApiErrorField) list"

text \<open>
  The values the code can throw.  \<open>RateLimitError\<close> (retryAfter, global, scope),
  \<open>RestError\<close> (status, code, message, errors, rateLimit), \<open>CloudflareError\<close>,
  \<open>FileTooLargeError\<close> (fileName, size, maxSize) and \<open>TimeoutError\<close> (timeout) are the
  classes of rest/types.ts.  The others come from the platform: \<open>AbortError\<close> is the
  \<open>DOMException\<close> with which \<open>fetch\<close> rejects once its signal is aborted,
  \<open>SyntaxError\<close> is what \<open>response.json()\<close> rejects with on a body that is not JSON,
  \<open>NetworkError\<close> is a rejection of \<open>fetch\<close> for a failure of the transport.
\<close>

datatype js_error =
    TypeError Message
  | RateLimitError real bool "string option"
  | RestError int int string "ApiErrorField option" "RateLimitData option"
  | CloudflareError int
  | FileTooLargeError string nat nat
  | TimeoutError number
  | AbortError
  | SyntaxError
  | NetworkError string

definition DEFAULT_OPTIONS :: Config where
  "DEFAULT_OPTIONS =
     \<lparr>Config.authType = ''Bot'', version = 10, retries = 3, timeout = Finite 15000,
      userAgent = None\<rparr>"

text \<open>The numeric values of the enum \<open>ApiVersion\<close> (constants/api.ts).\<close>

definition VALID_API_VERSIONS :: "real list" where
  "VALID_API_VERSIONS = [6, 7, 8, 9, 10]"

definition VALID_AUTH_TYPES :: "string list" where
  "VALID_AUTH_TYPES = [''Bot'', ''Bearer'']"

text \<open>\<open>Number.isInteger\<close>.\<close>

definition isInteger :: "real \<Rightarrow> bool" where
  "isInteger v = (of_int \<lfloor>v\<rfloor> = v)"

text \<open>
  \<open>String.prototype.trim\<close> removes white space and line terminators from both
  ends; among the code units below 256 these are 9 to 13, 32 and 160.
\<close>

definition isSpace :: "char \<Rightarrow> bool" where
  "isSpace c = (of_char c \<in> set [9, 10, 11, 12, 13, 32, 160 :: nat])"

definition trim :: "string \<Rightarrow> string" where
  "trim s = rev (dropWhile isSpace (rev (dropWhile isSpace s)))"

text \<open>
  \<open>validateOptions\<close>: five \<open>if\<close> statements in sequence, each throwing a
  \<open>TypeError\<close>.  The inner \<open>case\<close> is the statement (the error it throws, if any),
  the outer one the sequencing.  The guard of the timeout is
  \<open>options.timeout <= 0\<close>, which is false for NaN.
\<close>

definition validateOptions :: "RestOptions \<Rightarrow> js_error + unit" where
  "validateOptions options =
     (case (case RestOptions.authType options of
              Some a \<Rightarrow> if a \<notin> set VALID_AUTH_TYPES then Some (TypeError (InvalidAuthType a)) else None
            | None \<Rightarrow> None) of
        Some e \<Rightarrow> Inl e
      | None \<Rightarrow>
     (case (case RestOptions.version options of
              Some v \<Rightarrow> if \<not> isInteger v \<or> v \<notin> set VALID_API_VERSIONS
                        then Some (TypeError (InvalidVersion v)) else None
            | None \<Rightarrow> None) of
        Some e \<Rightarrow> Inl e
      | None \<Rightarrow>
     (case (case RestOptions.retries options of
              Some r \<Rightarrow> if \<not> isInteger r \<or> r < 0
                        then Some (TypeError (InvalidRetries r)) else None
            | None \<Rightarrow> None) of
        Some e \<Rightarrow> Inl e
      | None \<Rightarrow>
     (case (case RestOptions.timeout options of
              Some ms \<Rightarrow> if leq ms 0 then Some (TypeError (InvalidTimeout ms)) else None
            | None \<Rightarrow> None) of
        Some e \<Rightarrow> Inl e
      | None \<Rightarrow>
     (case (case RestOptions.userAgent options of
              Some u \<Rightarrow> if trim u = [] then Some (TypeError InvalidUserAgent) else None
            | None \<Rightarrow> None) of
        Some e \<Rightarrow> Inl e
      | None \<Rightarrow> Inr ())))))"

text \<open>
  The closure state of \<open>createRest\<close>: \<open>config\<close>, the tracker (the variable
  \<open>buckets\<close>) and \<open>currentToken\<close>.
\<close>

record Rest =
  config :: Config
  manager :: BucketManager
  currentToken :: string

text \<open>\<open>{ ...DEFAULT_OPTIONS, ...options }\<close>: a property of \<open>options\<close> wins.\<close>

definition mergeConfig :: "RestOptions \<Rightarrow> Config" where
  "mergeConfig options =
     \<lparr>Config.authType = (case RestOptions.authType options of Some a \<Rightarrow> a
                          | None \<Rightarrow> Config.authType DEFAULT_OPTIONS),
      version = (case RestOptions.version options of Some v \<Rightarrow> v
                 | None \<Rightarrow> Config.version DEFAULT_OPTIONS),
      retries = (case RestOptions.retries options of Some r \<Rightarrow> r
                 | None \<Rightarrow> Config.retries DEFAULT_OPTIONS),
      timeout = (case RestOptions.timeout options of Some ms \<Rightarrow> ms
                 | None \<Rightarrow> Config.timeout DEFAULT_OPTIONS),
      userAgent = RestOptions.userAgent options\<rparr>"

text \<open>
  \<open>createRest\<close> validates first and then builds the closure state.  It is
  synchronous and performs no transfer: it neither takes nor returns a world.
\<close>

definition createRest :: "string \<Rightarrow> RestOptions \<Rightarrow> js_error + Rest" where
  "createRest token options =
     (case validateOptions options of
        Inl e \<Rightarrow> Inl e
      | Inr _ \<Rightarrow>
          Inr \<lparr>config = mergeConfig options, manager = createBucketManager,
               currentToken = token\<rparr>)"

section \<open>Dispatcher (rest/client.ts)\<close>

subsection \<open>Requests and responses\<close>

datatype json =
    JNull
  | JBool bool
  | JNumber real
  | JString string
  | JArray "json list"
  | JObject "(string \<times> json) list"

text \<open>\<open>BodyValue\<close>: a string, binary data (a list of bytes) or an object.\<close>

datatype BodyValue = StringBody string | BinaryBody "nat list" | ObjectBody json

datatype QueryValue = QString string | QNumber real | QBoolean bool | QUndefined

record FileData =
  name :: string
  data :: "nat list"
  contentType :: "string option"

record RequestOptions =
  body :: "BodyValue option"
  files :: "FileData list option"
  query :: "(string \<times> QueryValue) list option"
  reason :: "string option"
  auth :: "bool option"
  headers :: "(string \<times> string) list option"

text \<open>
  The value of \<open>response.json()\<close>, seen through the interfaces the code casts it
  to without a check: \<open>RateLimitResponse\<close> (message, retry_after, global, code) and
  \<open>ApiErrorResponse\<close> (code, message, errors).  The fields have their declared
  types.  The same value is the \<open>data\<close> of a successful result.
\<close>

record JsonBody =
  message :: string
  retry_after :: real
  global :: bool
  code :: int
  errors :: "ApiErrorField option"

text \<open>
  What the code reads of a \<open>Response\<close>: \<open>status\<close>, \<open>headers.get\<close> and \<open>json()\<close>;
  \<open>body = None\<close> is a body that is not JSON, on which \<open>json()\<close> rejects.
\<close>

record Response =
  status :: int
  headers :: "string \<rightharpoonup> string"
  body :: "JsonBody option"

record RestResponse =
  data :: "JsonBody option"
  status :: int
  headers :: "string \<rightharpoonup> string"
  rateLimit :: "RateLimitData option"

subsection \<open>The world outside the client\<close>

text \<open>
  One transfer as the remote side plays it: the time in milliseconds until the
  response arrives, and the response or the message of a transport failure.
\<close>

record Transfer =
  latency :: real
  outcome :: "string + Response"

text \<open>
  The observable events of a call: a transfer handed to \<open>fetch\<close>, and a
  \<open>Bun.sleep\<close> with its duration, tagged with the place of the call (the delay of
  \<open>acquire\<close>, the \<open>retryAfter\<close> wait and the backoff of the \<open>catch\<close> block).
\<close>

datatype SleepSite = AcquireDelay | RetryAfter | Backoff

datatype Event = Fetched | Slept SleepSite real

text \<open>
  The world: the clock read by \<open>Date.now()\<close>, the remote side as a script that
  gives the \<open>i\<close>-th transfer its outcome (a statement about every script covers a
  server that reacts to the requests it receives), the number of transfers
  started so far, and the events so far.
\<close>

record World =
  clock :: real
  server :: "nat \<Rightarrow> Transfer"
  served :: nat
  trace :: "Event list"

text \<open>
  What the runtime and the files of the repository that are not at hand
  contribute: the conversion \<open>Number\<close> of a header value, with real results; the
  size ceiling for an attached file, in bytes; the delay the runtime gives to a
  timer whose delay is not a finite number; the conversion \<open>String\<close> of a number;
  and the serialisation of a \<open>URL\<close> made from an address and the pairs given one
  after the other to \<open>searchParams.set\<close>.
\<close>

record Env =
  Number :: "string \<Rightarrow> real"
  maxSize :: nat
  oddDelay :: "number \<Rightarrow> real"
  numberToString :: "real \<Rightarrow> string"
  href :: "string \<Rightarrow> (string \<times> string) list \<Rightarrow> string"

definition sleep :: "SleepSite \<Rightarrow> real \<Rightarrow> World \<Rightarrow> World" where
  "sleep site ms w = w\<lparr>clock := clock w + max 0 ms, trace := trace w @ [Slept site ms]\<rparr>"

text \<open>The delay of \<open>setTimeout(f, n)\<close>: \<open>n\<close> itself when it is finite.\<close>

definition timerDelay :: "Env \<Rightarrow> number \<Rightarrow> real" where
  "timerDelay env n = (case n of Finite r \<Rightarrow> r | _ \<Rightarrow> oddDelay env n)"

text \<open>
  \<open>fetch(url, {..., signal})\<close> under the timer
  \<open>setTimeout(() => controller.abort(), config.timeout)\<close>: when the transfer takes
  longer than the delay of the timer the signal is aborted first and \<open>fetch\<close>
  rejects with the abort error; otherwise the transfer's own outcome is
  delivered.  The body of a delivered response is taken to be at hand with it.
  The outcome is that of the script of the world, whatever the address, the
  headers and the body of the request are.
\<close>

definition fetch :: "Env \<Rightarrow> Config \<Rightarrow> World \<Rightarrow> (js_error + Response) \<times> World" where
  "fetch env cfg w =
     (let tr = server w (served w);
          w1 = w\<lparr>served := served w + 1, trace := trace w @ [Fetched]\<rparr>
      in if timerDelay env (Config.timeout cfg) < latency tr
         then (Inl AbortError, w1\<lparr>clock := clock w + timerDelay env (Config.timeout cfg)\<rparr>)
         else (case outcome tr of
                 Inl msg \<Rightarrow> (Inl (NetworkError msg), w1\<lparr>clock := clock w + latency tr\<rparr>)
               | Inr r \<Rightarrow> (Inr r, w1\<lparr>clock := clock w + latency tr\<rparr>)))"

subsection \<open>Waiting for a bucket\<close>

text \<open>
  \<open>acquire\<close> (rest/bucket.ts) sleeps for the delay of the key, then, while the
  bucket holds a promise in \<open>processing\<close>, awaits it and starts over.  Nothing in
  a single call clears the field, so with a pending promise the call never
  returns: the value \<open>None\<close>.
\<close>

partial_function (option) acquire :: "BucketManager \<Rightarrow> string \<Rightarrow> World \<Rightarrow> World option" where
  "acquire t key w =
     (let delay = getDelay t (clock w) key;
          w1 = (if delay > 0 then sleep AcquireDelay delay w else w)
      in case get t key of
           None \<Rightarrow> Some w1
         | Some b \<Rightarrow>
             (case processing b of
                None \<Rightarrow> Some w1
              | Some p \<Rightarrow> acquire t key w1))"

subsection \<open>Building the headers and the address\<close>

text \<open>
  The class \<open>Headers\<close> of the platform, as far as the client uses it: a list of
  names and values.  A name is valid when it is a non-empty run of token
  characters; a value is stripped of leading and trailing tabs, line feeds,
  carriage returns and spaces and is then valid when it holds no NUL, line feed
  or carriage return.  \<open>set\<close> throws a \<open>TypeError\<close> for an invalid name or value;
  otherwise it replaces the value of the first entry of that name (compared
  without regard to case), removes the other entries of that name, or appends
  the entry when there is none.  \<open>new Headers({name: value})\<close> is \<open>set\<close> on the
  empty list.
\<close>

type_synonym Headers = "(string \<times> string) list"

definition isAlpha :: "char \<Rightarrow> bool" where
  "isAlpha c = ((65 \<le> (of_char c :: nat) \<and> (of_char c :: nat) \<le> 90)
                \<or> (97 \<le> (of_char c :: nat) \<and> (of_char c :: nat) \<le> 122))"

definition isTokenChar :: "char \<Rightarrow> bool" where
  "isTokenChar c =
     (isAlpha c \<or> isDigit c
      \<or> (of_char c :: nat) \<in> set [33, 35, 36, 37, 38, 39, 42, 43, 45, 46, 94, 95, 96, 124, 126])"

definition validName :: "string \<Rightarrow> bool" where
  "validName nm = (nm \<noteq> [] \<and> list_all isTokenChar nm)"

definition isHttpSpace :: "char \<Rightarrow> bool" where
  "isHttpSpace c = ((of_char c :: nat) \<in> set [9, 10, 13, 32])"

definition normalize :: "string \<Rightarrow> string" where
  "normalize v = rev (dropWhile isHttpSpace (rev (dropWhile isHttpSpace v)))"

definition validValue :: "string \<Rightarrow> bool" where
  "validValue v = list_all (\<lambda>c. (of_char c :: nat) \<notin> set [0, 10, 13]) v"

definition lowerChar :: "char \<Rightarrow> char" where
  "lowerChar c =
     (if 65 \<le> (of_char c :: nat) \<and> (of_char c :: nat) \<le> 90
      then char_of ((of_char c :: nat) + 32) else c)"

definition sameName :: "string \<Rightarrow> string \<Rightarrow> bool" where
  "sameName a b = (map lowerChar a = map lowerChar b)"

fun replaceFirst :: "string \<Rightarrow> string \<Rightarrow> Headers \<Rightarrow> Headers" where
  "replaceFirst nm v [] = [(nm, v)]"
| "replaceFirst nm v ((k, x) # hs) =
     (if sameName k nm
      then (k, v) # filter (\<lambda>(k', x'). \<not> sameName k' nm) hs
      else (k, x) # replaceFirst nm v hs)"

definition headersSet :: "Headers \<Rightarrow> string \<Rightarrow> string \<Rightarrow> js_error + Headers" where
  "headersSet hs nm v =
     (if \<not> validName nm \<or> \<not> validValue (normalize v)
      then Inl (TypeError (InvalidHeader nm v))
      else Inr (replaceFirst nm (normalize v) hs))"

text \<open>
  \<open>encodeURIComponent\<close> on code units below 256, where it cannot throw: the
  unreserved characters stay, every other character becomes the escapes of
  the one or two bytes of its UTF-8 encoding.
\<close>

definition hexDigit :: "nat \<Rightarrow> char" where
  "hexDigit n = ''0123456789ABCDEF'' ! (n mod 16)"

definition escape :: "nat \<Rightarrow> string" where
  "escape n = [CHR ''%'', hexDigit (n div 16), hexDigit n]"

definition unreserved :: "char \<Rightarrow> bool" where
  "unreserved c =
     (isAlpha c \<or> isDigit c \<or> (of_char c :: nat) \<in> set [45, 95, 46, 33, 126, 42, 39, 40, 41])"

definition encodeChar :: "char \<Rightarrow> string" where
  "encodeChar c =
     (if unreserved c then [c]
      else if (of_char c :: nat) < 128 then escape (of_char c)
      else escape (192 + (of_char c :: nat) div 64) @ escape (128 + (of_char c :: nat) mod 64))"

definition encodeURIComponent :: "string \<Rightarrow> string" where
  "encodeURIComponent s = concat (map encodeChar s)"

definition LIB_VERSION :: string where
  "LIB_VERSION = ''0.0.1''"

definition LIB_URL :: string where
  "LIB_URL = ''https://github.com/cordbun/cordbun''"

definition API_BASE_URL :: string where
  "API_BASE_URL = ''https://discord.com/api''"

text \<open>\<open>config.userAgent ?? `DiscordBot (${LIB_URL}, ${LIB_VERSION})`\<close>.\<close>

definition userAgentOf :: "Config \<Rightarrow> string" where
  "userAgentOf cfg =
     (case Config.userAgent cfg of
        Some u \<Rightarrow> u
      | None \<Rightarrow> ''DiscordBot ('' @ LIB_URL @ '', '' @ LIB_VERSION @ '')'')"

text \<open>The loop over \<open>Object.entries(opts.headers)\<close>: it stops at the first throw.\<close>

fun setAll :: "Headers \<Rightarrow> (string \<times> string) list \<Rightarrow> js_error + Headers" where
  "setAll hs [] = Inr hs"
| "setAll hs ((k, v) # kvs) =
     (case headersSet hs k v of
        Inl e \<Rightarrow> Inl e
      | Inr hs1 \<Rightarrow> setAll hs1 kvs)"

text \<open>
  \<open>buildHeaders\<close>, with the token of the closure as an argument.  \<open>opts.auth !==
  false\<close> holds for an absent property; \<open>if (opts.reason)\<close> holds for a non-empty
  string; \<open>if (opts.headers)\<close> holds for every object.
\<close>

definition buildHeaders :: "Config \<Rightarrow> string \<Rightarrow> RequestOptions \<Rightarrow> js_error + Headers" where
  "buildHeaders cfg token opts =
     (case headersSet [] ''User-Agent'' (userAgentOf cfg) of
        Inl e \<Rightarrow> Inl e
      | Inr h0 \<Rightarrow>
     (case (if auth opts \<noteq> Some False
            then headersSet h0 ''Authorization'' (Config.authType cfg @ '' '' @ token)
            else Inr h0) of
        Inl e \<Rightarrow> Inl e
      | Inr h1 \<Rightarrow>
     (case (case reason opts of
              Some r \<Rightarrow> if r \<noteq> []
                        then headersSet h1 ''X-Audit-Log-Reason'' (encodeURIComponent r)
                        else Inr h1
            | None \<Rightarrow> Inr h1) of
        Inl e \<Rightarrow> Inl e
      | Inr h2 \<Rightarrow>
     (case RequestOptions.headers opts of
        Some kvs \<Rightarrow> setAll h2 kvs
      | None \<Rightarrow> Inr h2))))"

text \<open>
  \<open>buildUrl\<close>.  The address is \<open>baseUrl\<close> followed by the route; it begins with
  \<open>https://discord.com/\<close>, so the route is read as part of the path, the query or
  the fragment, where \<open>new URL\<close> does not throw.  \<open>undefined\<close> values are left
  out and \<open>String(value)\<close> is set for the others.
\<close>

definition baseUrl :: "Env \<Rightarrow> Config \<Rightarrow> string" where
  "baseUrl env cfg = API_BASE_URL @ ''/v'' @ numberToString env (Config.version cfg)"

definition queryString :: "Env \<Rightarrow> QueryValue \<Rightarrow> string option" where
  "queryString env v =
     (case v of
        QString s \<Rightarrow> Some s
      | QNumber r \<Rightarrow> Some (numberToString env r)
      | QBoolean b \<Rightarrow> Some (if b then ''true'' else ''false'')
      | QUndefined \<Rightarrow> None)"

definition buildUrl ::
  "Env \<Rightarrow> Config \<Rightarrow> string \<Rightarrow> (string \<times> QueryValue) list option \<Rightarrow> string" where
  "buildUrl env cfg route q =
     href env (baseUrl env cfg @ route)
       (case q of
          None \<Rightarrow> []
        | Some kvs \<Rightarrow>
            concat (map (\<lambda>(k, v). case queryString env v of None \<Rightarrow> [] | Some s \<Rightarrow> [(k, s)])
                      kvs))"

subsection \<open>Building the body\<close>

datatype FileAttachment = FileAttachment nat string "nat list" "string option"

datatype Payload = FormData BodyValue "FileAttachment list" | JsonText BodyValue | NoBody

text \<open>
  Modelled from the spec: \<open>createFileAttachment\<close> of utils, which is imported by
  rest/client.ts and is not among the files at hand.  The spec has an attachment
  that exceeds the known size ceiling raise the error that carries the file
  name, its size and the ceiling (\<open>FileTooLargeError\<close> of rest/types.ts); otherwise
  the attachment is made of the index, the name, the data and the content type.
\<close>

definition createFileAttachment ::
  "Env \<Rightarrow> nat \<Rightarrow> string \<Rightarrow> nat list \<Rightarrow> string option \<Rightarrow> js_error + FileAttachment" where
  "createFileAttachment env i nm bytes ct =
     (if maxSize env < length bytes
      then Inl (FileTooLargeError nm (length bytes) (maxSize env))
      else Inr (FileAttachment i nm bytes ct))"

text \<open>\<open>opts.files.map((file, i) => createFileAttachment(i, ...))\<close>, from the left.\<close>

primrec createAttachments :: "Env \<Rightarrow> nat \<Rightarrow> FileData list \<Rightarrow> js_error + FileAttachment list" where
  "createAttachments env i [] = Inr []"
| "createAttachments env i (f # fs) =
     (case createFileAttachment env i (FileData.name f) (FileData.data f) (FileData.contentType f) of
        Inl e \<Rightarrow> Inl e
      | Inr a \<Rightarrow>
          (case createAttachments env (i + 1) fs of
             Inl e \<Rightarrow> Inl e
           | Inr atts \<Rightarrow> Inr (a # atts)))"

text \<open>
  Modelled from the spec: \<open>buildMultipartBody\<close> of utils, not among the files at
  hand; it merges the JSON-encoded payload part with each file part.
\<close>

definition buildMultipartBody :: "BodyValue \<Rightarrow> FileAttachment list \<Rightarrow> Payload" where
  "buildMultipartBody payload atts = FormData payload atts"

text \<open>Truthiness of \<open>opts.body\<close>: of the possible values only the empty string is falsy.\<close>

definition truthy :: "BodyValue \<Rightarrow> bool" where
  "truthy b = (case b of StringBody s \<Rightarrow> s \<noteq> [] | _ \<Rightarrow> True)"

text \<open>
  \<open>buildBody(opts, headers)\<close>: the body, and the headers after the call.
  \<open>opts.files?.length\<close> holds for a non-empty list; \<open>opts.body ?? {}\<close> is the payload
  of the multipart body.
\<close>

definition buildBody :: "Env \<Rightarrow> RequestOptions \<Rightarrow> Headers \<Rightarrow> js_error + Payload \<times> Headers" where
  "buildBody env opts hs =
     (case files opts of
        Some (f # fs) \<Rightarrow>
          (case createAttachments env 0 (f # fs) of
             Inl e \<Rightarrow> Inl e
           | Inr atts \<Rightarrow>
               Inr (buildMultipartBody
                      (case RequestOptions.body opts of Some b \<Rightarrow> b | None \<Rightarrow> ObjectBody (JObject []))
                      atts, hs))
      | _ \<Rightarrow>
          (case RequestOptions.body opts of
             Some b \<Rightarrow>
               if truthy b
               then (case headersSet hs ''Content-Type'' ''application/json'' of
                       Inl e \<Rightarrow> Inl e
                     | Inr hs1 \<Rightarrow> Inr (JsonText b, hs1))
               else Inr (NoBody, hs)
           | None \<Rightarrow> Inr (NoBody, hs)))"

subsection \<open>Classifying the response\<close>

text \<open>
  \<open>parseRateLimitHeaders\<close>.  \<open>if (!limit) return null\<close> covers the absent and the
  empty header; \<open>?? 0\<close> and \<open>?? ""\<close> are the defaults of absent headers; \<open>scope\<close> is
  spread into the result only when it is a non-empty string.
\<close>

definition parseRateLimitHeaders :: "Env \<Rightarrow> (string \<rightharpoonup> string) \<Rightarrow> RateLimitData option" where
  "parseRateLimitHeaders env hs =
     (case hs ''X-RateLimit-Limit'' of
        None \<Rightarrow> None
      | Some limitHeader \<Rightarrow>
          if limitHeader = [] then None
          else Some
            \<lparr>RateLimitData.limit = Number env limitHeader,
             remaining = (case hs ''X-RateLimit-Remaining'' of Some v \<Rightarrow> Number env v | None \<Rightarrow> 0),
             reset = (case hs ''X-RateLimit-Reset'' of Some v \<Rightarrow> Number env v | None \<Rightarrow> 0),
             resetAfter = (case hs ''X-RateLimit-Reset-After'' of Some v \<Rightarrow> Number env v | None \<Rightarrow> 0),
             bucket = (case hs ''X-RateLimit-Bucket'' of Some v \<Rightarrow> v | None \<Rightarrow> []),
             global = (hs ''X-RateLimit-Global'' = Some ''true''),
             scope = (case hs ''X-RateLimit-Scope'' of
                        Some v \<Rightarrow> if v = [] then None else Some v
                      | None \<Rightarrow> None)\<rparr>)"

text \<open>\<open>handleRateLimit\<close> always throws: its result is the error, with the new state.\<close>

definition handleRateLimit ::
  "Env \<Rightarrow> Response \<Rightarrow> string \<Rightarrow> BucketManager \<times> World \<Rightarrow> js_error \<times> BucketManager \<times> World" where
  "handleRateLimit env response routeKey s =
     (case s of (t, w) \<Rightarrow>
        (case Response.body response of
           None \<Rightarrow> (SyntaxError, t, w)
         | Some d \<Rightarrow>
             (let rl = parseRateLimitHeaders env (Response.headers response);
                  t1 = (if JsonBody.global d
                        then setGlobalReset t (clock w + retry_after d * 1000)
                        else t);
                  t2 = (case rl of Some r \<Rightarrow> update t1 routeKey r | None \<Rightarrow> t1)
              in (RateLimitError (retry_after d) (JsonBody.global d)
                    (case rl of Some r \<Rightarrow> scope r | None \<Rightarrow> None), t2, w))))"

text \<open>\<open>RestError.fromResponse\<close> (\<open>RESTError\<close> in rest/types.ts).\<close>

definition fromResponse :: "JsonBody \<Rightarrow> int \<Rightarrow> RateLimitData option \<Rightarrow> js_error" where
  "fromResponse response st rl = RestError st (code response) (message response) (errors response) rl"

text \<open>\<open>response.ok\<close>.\<close>

definition ok :: "Response \<Rightarrow> bool" where
  "ok response = (200 \<le> Response.status response \<and> Response.status response \<le> 299)"

text \<open>
  The \<open>try\<close> block of \<open>request\<close>: the transfer, the update of the tracker from the
  headers of any response, and the classification by status.  \<open>Inl\<close> is the error
  the block throws.
\<close>

definition tryBlock ::
  "Env \<Rightarrow> Config \<Rightarrow> string \<Rightarrow> BucketManager \<times> World
     \<Rightarrow> (js_error + RestResponse) \<times> BucketManager \<times> World" where
  "tryBlock env cfg routeKey s =
     (case s of (t, w) \<Rightarrow>
        (case fetch env cfg w of
           (Inl e, w1) \<Rightarrow> (Inl e, t, w1)
         | (Inr response, w1) \<Rightarrow>
             (let rl = parseRateLimitHeaders env (Response.headers response);
                  t1 = (case rl of Some r \<Rightarrow> update t routeKey r | None \<Rightarrow> t)
              in if Response.status response = 429
                 then (case handleRateLimit env response routeKey (t1, w1) of
                         (e, t2, w2) \<Rightarrow> (Inl e, t2, w2))
                 else if Response.status response = 204
                 then (Inr \<lparr>data = None, status = Response.status response,
                            headers = Response.headers response, rateLimit = rl\<rparr>, t1, w1)
                 else (case Response.body response of
                         None \<Rightarrow> (Inl SyntaxError, t1, w1)
                       | Some responseData \<Rightarrow>
                           if \<not> ok response
                           then (Inl (fromResponse responseData (Response.status response) rl), t1, w1)
                           else (Inr \<lparr>data = Some responseData, status = Response.status response,
                                      headers = Response.headers response, rateLimit = rl\<rparr>,
                                 t1, w1)))))"

subsection \<open>The request with its retries\<close>

text \<open>
  \<open>request(method, route, opts, retryCount)\<close> on the tracker and the world, with
  the token of the closure as an argument.  \<open>acquire\<close>, \<open>buildHeaders\<close>, \<open>buildUrl\<close>
  and \<open>buildBody\<close> run in this order before the \<open>try\<close> block, so what they throw is
  not seen by the \<open>catch\<close> block.  The \<open>catch\<close> block calls \<open>request\<close> again, after a
  sleep, for a \<open>RateLimitError\<close> and for a \<open>RestError\<close> with status 500 or more while
  \<open>retryCount < config.retries\<close>, and rethrows every other error.  The result is
  \<open>None\<close> when the call never returns.
\<close>

function request ::
  "Env \<Rightarrow> Config \<Rightarrow> string \<Rightarrow> string \<Rightarrow> string \<Rightarrow> RequestOptions \<Rightarrow> nat
     \<Rightarrow> BucketManager \<times> World
     \<Rightarrow> ((js_error + RestResponse) \<times> BucketManager \<times> World) option" where
  "request env cfg token method route opts retryCount (t, w) =
     (let routeKey = getRouteKey method route
      in case acquire t routeKey w of
           None \<Rightarrow> None
         | Some w1 \<Rightarrow>
             (case buildHeaders cfg token opts of
                Inl e \<Rightarrow> Some (Inl e, t, w1)
              | Inr hs \<Rightarrow>
                  (let url = buildUrl env cfg route (query opts)
                   in case buildBody env opts hs of
                        Inl e \<Rightarrow> Some (Inl e, t, w1)
                      | Inr payload \<Rightarrow>
                          (case tryBlock env cfg routeKey (t, w1) of
                             (Inr response, t2, w2) \<Rightarrow> Some (Inr response, t2, w2)
                           | (Inl error, t2, w2) \<Rightarrow>
                               (case error of
                                  RateLimitError retryAfter g sc \<Rightarrow>
                                    if real retryCount < Config.retries cfg
                                    then request env cfg token method route opts (retryCount + 1)
                                           (t2, sleep RetryAfter (retryAfter * 1000) w2)
                                    else Some (Inl error, t2, w2)
                                | RestError st c msg errs rl \<Rightarrow>
                                    if st \<ge> 500 \<and> real retryCount < Config.retries cfg
                                    then request env cfg token method route opts (retryCount + 1)
                                           (t2, sleep Backoff (1000 * (real retryCount + 1)) w2)
                                    else Some (Inl error, t2, w2)
                                | _ \<Rightarrow> Some (Inl error, t2, w2))))))"
  by pat_completeness auto
termination
proof -
  have dec: "\<lceil>r - real (Suc n)\<rceil> < \<lceil>r - real n\<rceil>" for r :: real and n :: nat
  proof -
    have "\<lceil>r - real (Suc n)\<rceil> = \<lceil>r - real n\<rceil> - 1"
      by (simp add: algebra_simps) linarith
    then show ?thesis by simp
  qed
  show ?thesis
    by (relation "measure (\<lambda>(env, cfg, token, method, route, opts, retryCount, s).
                    nat \<lceil>Config.retries cfg - real retryCount\<rceil>)")
       (auto simp: dec simp del: of_nat_Suc)
qed

section \<open>Vocabulary of the statements\<close>

subsection \<open>Routes\<close>

text \<open>A numeric path segment: a non-empty run of digits that ends where \<open>post\<close> begins.\<close>

definition numeric :: "string \<Rightarrow> bool" where
  "numeric d = (d \<noteq> [] \<and> list_all isDigit d)"

definition segmentEnd :: "string \<Rightarrow> bool" where
  "segmentEnd post = (case post of [] \<Rightarrow> True | c # _ \<Rightarrow> c = CHR ''/'')"

text \<open>The three major resource families, and a path that ends with one of them.\<close>

definition majorRoots :: "string set" where
  "majorRoots = {''channels'', ''guilds'', ''webhooks''}"

definition endsWithRoot :: "string \<Rightarrow> bool" where
  "endsWithRoot pre =
     (suffix ''/channels'' pre \<or> suffix ''/guilds'' pre \<or> suffix ''/webhooks'' pre)"

subsection \<open>Malformed options\<close>

text \<open>
  The ways in which client options are malformed, in the words of the
  specification: an auth scheme outside the two variants, a version outside the
  enumerated set, retries negative or not an integer, a timeout that is not a
  positive number; and, from \<open>validateOptions\<close>, a user agent that is blank.
  NaN is not a positive number, \<open>+Infinity\<close> is one.
\<close>

definition positive :: "number \<Rightarrow> bool" where
  "positive n =
     (case n of
        Finite x \<Rightarrow> 0 < x
      | NaN \<Rightarrow> False
      | PosInfinity \<Rightarrow> True
      | NegInfinity \<Rightarrow> False)"

definition badAuthType :: "RestOptions \<Rightarrow> bool" where
  "badAuthType options =
     (case RestOptions.authType options of
        None \<Rightarrow> False
      | Some a \<Rightarrow> a \<noteq> ''Bot'' \<and> a \<noteq> ''Bearer'')"

definition badVersion :: "RestOptions \<Rightarrow> bool" where
  "badVersion options =
     (case RestOptions.version options of
        None \<Rightarrow> False
      | Some v \<Rightarrow> v \<notin> {6, 7, 8, 9, 10})"

definition badRetries :: "RestOptions \<Rightarrow> bool" where
  "badRetries options =
     (case RestOptions.retries options of
        None \<Rightarrow> False
      | Some r \<Rightarrow> r < 0 \<or> r \<notin> \<int>)"

definition badTimeout :: "RestOptions \<Rightarrow> bool" where
  "badTimeout options =
     (case RestOptions.timeout options of
        None \<Rightarrow> False
      | Some ms \<Rightarrow> \<not> positive ms)"

definition badUserAgent :: "RestOptions \<Rightarrow> bool" where
  "badUserAgent options =
     (case RestOptions.userAgent options of
        None \<Rightarrow> False
      | Some u \<Rightarrow> list_all isSpace u)"

subsection \<open>Tracker states and traces\<close>

text \<open>
  No bucket holds a pending promise.  This is true of the tracker of every
  client: it is true of \<open>createBucketManager\<close>, \<open>update\<close> and \<open>setGlobalReset\<close>
  preserve it, and the client never calls \<open>set\<close>.
\<close>

definition noProcessing :: "BucketManager \<Rightarrow> bool" where
  "noProcessing t = (\<forall>k b. buckets t k = Some b \<longrightarrow> processing b = None)"

text \<open>The number of transfers in a trace, and the durations of its backoff sleeps.\<close>

definition fetches :: "Event list \<Rightarrow> nat" where
  "fetches tr = length (filter (\<lambda>e. e = Fetched) tr)"

fun backoffs :: "Event list \<Rightarrow> real list" where
  "backoffs [] = []"
| "backoffs (Slept Backoff ms # es) = ms # backoffs es"
| "backoffs (e # es) = backoffs es"


subsection \<open>Concrete inputs\<close>

definition exampleEnv :: Env where
  "exampleEnv =
     \<lparr>Number = (\<lambda>s. 0), maxSize = 4, oddDelay = (\<lambda>n. 1),
      numberToString = (\<lambda>r. ''10''), href = (\<lambda>address pairs. address)\<rparr>"

definition noOptions :: RequestOptions where
  "noOptions = \<lparr>RequestOptions.body = None, files = None, query = None, reason = None,
                auth = None, headers = None\<rparr>"

definition internalError :: Response where
  "internalError =
     \<lparr>Response.status = 500, headers = Map.empty,
      body = Some \<lparr>message = ''Internal Server Error'', retry_after = 0, global = False,
                   code = 0, errors = None\<rparr>\<rparr>"

text \<open>A server that answers every transfer after 120 ms with status 500.\<close>

definition failingServer :: "nat \<Rightarrow> Transfer" where
  "failingServer i = \<lparr>latency = 120, outcome = Inr internalError\<rparr>"

text \<open>A server whose answer takes 20 s, longer than the default timeout of 15 s.\<close>

definition stalledServer :: "nat \<Rightarrow> Transfer" where
  "stalledServer i = \<lparr>latency = 20000, outcome = Inr internalError\<rparr>"

definition freshWorld :: "(nat \<Rightarrow> Transfer) \<Rightarrow> World" where
  "freshWorld srv = \<lparr>clock = 0, server = srv, served = 0, trace = []\<rparr>"

text \<open>An attachment of five bytes, above the ceiling of \<open>exampleEnv\<close>.\<close>

definition fiveBytes :: FileData where
  "fiveBytes = \<lparr>FileData.name = ''a.png'', data = [0, 0, 0, 0, 0], contentType = None\<rparr>"

text \<open>The attachment alone, and with a custom header whose name has a space.\<close>

definition upload :: RequestOptions where
  "upload = \<lparr>RequestOptions.body = None, files = Some [fiveBytes], query = None,
             reason = None, auth = None, headers = None\<rparr>"

definition uploadBadHeader :: RequestOptions where
  "uploadBadHeader =
     \<lparr>RequestOptions.body = None, files = Some [fiveBytes], query = None,
      reason = None, auth = None, headers = Some [(''bad name'', ''x'')]\<rparr>"



section \<open>Properties of the bucket tracker\<close>

text \<open>
  With a non-empty bucket hash, \<open>update(k, s)\<close> associates the hash with \<open>k\<close> and a
  query for \<open>k\<close> finds the values of \<open>s\<close>, the reset as milliseconds.
\<close>

lemma update_then_get:
  assumes "bucket snap \<noteq> []"
  shows "get (update t key snap) key =
           Some \<lparr>RateLimitBucket.limit = RateLimitData.limit snap,
                 remaining = RateLimitData.remaining snap,
                 reset = RateLimitData.reset snap * 1000,
                 processing = (case buckets t (bucket snap) of None \<Rightarrow> None
                               | Some b \<Rightarrow> processing b)\<rparr>"
    and "bucketKeys (update t key snap) key = Some (bucket snap)"
  using assms by (simp_all add: get_def update_def Let_def)

text \<open>
  C1.  A snapshot without a bucket hash (\<open>parseRateLimitHeaders\<close> produces the empty
  string when the header \<open>X-RateLimit-Bucket\<close> is absent) is stored under the key
  \<open>""\<close> and no hash is associated with the route key: on a fresh tracker, after
  \<open>update(k, s)\<close> the query \<open>get(k)\<close> finds no bucket, \<open>getDelay(k)\<close> is 0 although the
  snapshot has no quota left and resets in the future, and \<open>bucketKeys\<close> has no
  entry for \<open>k\<close>.
\<close>

theorem update_empty_hash_not_retrieved:
  "get (update createBucketManager ''GET:/users/@me:''
          \<lparr>RateLimitData.limit = 5, remaining = 0, reset = 2000, resetAfter = 1,
           bucket = [], global = False, scope = None\<rparr>) ''GET:/users/@me:'' = None
   \<and> bucketKeys (update createBucketManager ''GET:/users/@me:''
          \<lparr>RateLimitData.limit = 5, remaining = 0, reset = 2000, resetAfter = 1,
           bucket = [], global = False, scope = None\<rparr>) ''GET:/users/@me:'' = None
   \<and> getDelay (update createBucketManager ''GET:/users/@me:''
          \<lparr>RateLimitData.limit = 5, remaining = 0, reset = 2000, resetAfter = 1,
           bucket = [], global = False, scope = None\<rparr>) 1000000 ''GET:/users/@me:'' = 0"
  by (simp add: get_def update_def getDelay_def createBucketManager_def Let_def)

text \<open>
  C2 as stated fails: \<open>setGlobalReset\<close> assigns its argument, so a smaller argument
  lowers the deadline.
\<close>

theorem setGlobalReset_lowers_deadline:
  "globalReset (setGlobalReset (createBucketManager\<lparr>globalReset := 10\<rparr>) 5) \<noteq> max 10 5"
  by (simp add: setGlobalReset_def)

text \<open>
  C2, amended.  After \<open>setGlobalReset(u)\<close> the stored global deadline is \<open>u\<close>; it is
  \<open>max(g, u)\<close> whenever the caller does not lower it, that is when \<open>g \<le> u\<close>.
\<close>

theorem setGlobalReset_stores_argument:
  "globalReset (setGlobalReset t u) = u
   \<and> (globalReset t \<le> u \<longrightarrow> globalReset (setGlobalReset t u) = max (globalReset t) u)"
  by (simp add: setGlobalReset_def max_def)

theorem setGlobalReset_stores_argument_witness:
  "globalReset (createBucketManager\<lparr>globalReset := 5\<rparr>) \<le> 10
   \<and> globalReset (setGlobalReset (createBucketManager\<lparr>globalReset := 5\<rparr>) 10) = 10
   \<and> globalReset (setGlobalReset (createBucketManager\<lparr>globalReset := 5\<rparr>) 10)
       = max (globalReset (createBucketManager\<lparr>globalReset := 5\<rparr>)) 10"
  using setGlobalReset_stores_argument [of "createBucketManager\<lparr>globalReset := 5\<rparr>" 10]
  by simp

text \<open>
  C6.  \<open>getDelay(key)\<close> at clock value \<open>now\<close>: the time left until the global
  deadline when that lies in the future, whatever the bucket says; otherwise 0
  when \<open>get(key)\<close> finds no bucket; otherwise the time left until the bucket's
  reset when the bucket has \<open>remaining \<le> 0\<close> and its reset lies in the future;
  otherwise 0, in particular once the reset instant has passed.
\<close>

theorem getDelay_cases:
  "(now < globalReset t \<longrightarrow> getDelay t now key = globalReset t - now)
   \<and> (globalReset t \<le> now \<and> get t key = None \<longrightarrow> getDelay t now key = 0)
   \<and> (globalReset t \<le> now \<and> get t key = Some b
        \<and> RateLimitBucket.remaining b \<le> 0 \<and> now < RateLimitBucket.reset b
        \<longrightarrow> getDelay t now key = RateLimitBucket.reset b - now)
   \<and> (globalReset t \<le> now \<and> get t key = Some b
        \<and> \<not> (RateLimitBucket.remaining b \<le> 0 \<and> now < RateLimitBucket.reset b)
        \<longrightarrow> getDelay t now key = 0)"
  by (simp add: getDelay_def)

theorem getDelay_cases_witness:
  "globalReset (createBucketManager\<lparr>globalReset := 7000\<rparr>) > 5000
   \<and> getDelay (createBucketManager\<lparr>globalReset := 7000\<rparr>) 5000 ''GET:/gateway:'' = 2000
   \<and> get createBucketManager ''GET:/gateway:'' = None
   \<and> getDelay createBucketManager 5000 ''GET:/gateway:'' = 0
   \<and> get (set_bucket createBucketManager ''GET:/gateway:''
            \<lparr>RateLimitBucket.limit = 5, remaining = 0, reset = 5500, processing = None\<rparr>)
         ''GET:/gateway:''
       = Some \<lparr>RateLimitBucket.limit = 5, remaining = 0, reset = 5500, processing = None\<rparr>
   \<and> getDelay (set_bucket createBucketManager ''GET:/gateway:''
            \<lparr>RateLimitBucket.limit = 5, remaining = 0, reset = 5500, processing = None\<rparr>)
         5000 ''GET:/gateway:'' = 500
   \<and> getDelay (set_bucket createBucketManager ''GET:/gateway:''
            \<lparr>RateLimitBucket.limit = 5, remaining = 0, reset = 5500, processing = None\<rparr>)
         6000 ''GET:/gateway:'' = 0"
  using
    getDelay_cases [of 5000 "createBucketManager\<lparr>globalReset := 7000\<rparr>" "''GET:/gateway:''"]
    getDelay_cases [of 5000 createBucketManager "''GET:/gateway:''"]
    getDelay_cases [of 5000 "set_bucket createBucketManager ''GET:/gateway:''
            \<lparr>RateLimitBucket.limit = 5, remaining = 0, reset = 5500, processing = None\<rparr>"
         "''GET:/gateway:''"
         "\<lparr>RateLimitBucket.limit = 5, remaining = 0, reset = 5500, processing = None\<rparr>"]
    getDelay_cases [of 6000 "set_bucket createBucketManager ''GET:/gateway:''
            \<lparr>RateLimitBucket.limit = 5, remaining = 0, reset = 5500, processing = None\<rparr>"
         "''GET:/gateway:''"
         "\<lparr>RateLimitBucket.limit = 5, remaining = 0, reset = 5500, processing = None\<rparr>"]
  by (simp add: createBucketManager_def set_bucket_def get_def)

text \<open>
  C9.  \<open>update\<close> is idempotent: a second \<open>update(k, s)\<close> leaves the bucket map, the
  bucket-hash map and the global deadline as the first one left them.
\<close>

theorem update_idempotent:
  "update (update t k s) k s = update t k s"
  by (simp add: update_def Let_def)

text \<open>
  C10.  \<open>getDelay\<close> never returns a negative number, for any tracker state, route
  key and clock value.
\<close>

theorem getDelay_nonneg:
  "0 \<le> getDelay t now key"
  by (simp add: getDelay_def split: option.split)

section \<open>Properties of the route key\<close>

lemma slash_not_digit: "\<not> isDigit CHR ''/''"
  by (simp add: isDigit_def)

lemma segmentEnd_no_digit: "segmentEnd s \<Longrightarrow> takeWhile isDigit s = []"
  by (cases s) (auto simp: segmentEnd_def slash_not_digit)

lemma takeWhile_digits_append:
  "takeWhile isDigit s = [] \<Longrightarrow> takeWhile isDigit (cs @ s) = takeWhile isDigit cs"
  by (induction cs) auto

lemma dropWhile_digits_append:
  "takeWhile isDigit s = [] \<Longrightarrow> dropWhile isDigit (cs @ s) = dropWhile isDigit cs @ s"
  by (induction cs) (auto simp: takeWhile_eq_Nil_iff dropWhile_eq_self_iff)

lemma replaceIds_append:
  "takeWhile isDigit s = [] \<Longrightarrow> replaceIds (p @ s) = replaceIds p @ replaceIds s"
proof (induction p rule: replaceIds.induct)
  case 1
  then show ?case by simp
next
  case (2 c cs)
  then show ?case
    by (simp add: takeWhile_digits_append dropWhile_digits_append)
qed

lemma numeric_takeWhile:
  "numeric d \<Longrightarrow> takeWhile isDigit s = [] \<Longrightarrow> takeWhile isDigit (d @ s) = d"
  by (simp add: numeric_def takeWhile_digits_append list_all_iff)

lemma dropWhile_no_digit:
  "takeWhile isDigit s = [] \<Longrightarrow> dropWhile isDigit s = s"
  by (metis append_Nil takeWhile_dropWhile_id)

lemma numeric_dropWhile:
  "numeric d \<Longrightarrow> takeWhile isDigit s = [] \<Longrightarrow> dropWhile isDigit (d @ s) = s"
  by (simp add: numeric_def dropWhile_digits_append dropWhile_no_digit list_all_iff)

lemma replaceIds_numeric_segment:
  assumes "numeric d" "takeWhile isDigit post = []"
  shows "replaceIds (CHR ''/'' # d @ post) = ''/:id'' @ replaceIds post"
  using assms numeric_takeWhile[OF assms] numeric_dropWhile[OF assms]
  by (auto simp: numeric_def)

lemma split_at_slash:
  assumes "CHR ''/'' \<notin> set nm" "nm @ ''/'' = p @ CHR ''/'' # r"
  shows "p = nm \<and> r = []"
proof -
  have "takeWhile (\<lambda>c. c \<noteq> CHR ''/'') (nm @ ''/'') = nm"
    using assms(1) by (induction nm) auto
  moreover have "prefix (takeWhile (\<lambda>c. c \<noteq> CHR ''/'') (p @ CHR ''/'' # r)) p"
    by (induction p) auto
  ultimately have "prefix nm p" using assms(2) by simp
  then obtain z where z: "p = nm @ z" by (auto simp: prefix_def)
  with assms(2) have "''/'' = z @ CHR ''/'' # r" by simp
  then have "z = [] \<and> r = []" by (cases z) auto
  with z show ?thesis by simp
qed

lemma prefix_root_append:
  assumes "CHR ''/'' \<notin> set nm" "p \<noteq> []" "p \<noteq> CHR ''/'' # nm"
    and "s = [] \<or> hd s = CHR ''/''"
  shows "prefix (CHR ''/'' # nm @ ''/'') (p @ s) = prefix (CHR ''/'' # nm @ ''/'') p"
proof
  assume "prefix (CHR ''/'' # nm @ ''/'') (p @ s)"
  then have "prefix (CHR ''/'' # nm @ ''/'') p
      \<or> (\<exists>us. CHR ''/'' # nm @ ''/'' = p @ us \<and> prefix us s)"
    by (simp only: prefix_append)
  then consider "prefix (CHR ''/'' # nm @ ''/'') p"
    | us where "CHR ''/'' # nm @ ''/'' = p @ us" "prefix us s" "us \<noteq> []"
    by (cases "prefix (CHR ''/'' # nm @ ''/'') p") force+
  then show "prefix (CHR ''/'' # nm @ ''/'') p"
  proof cases
    case 1
    then show ?thesis .
  next
    case 2
    from 2(2,3) assms(4) obtain r where us: "us = CHR ''/'' # r"
      by (cases us; cases s) (auto)
    from assms(2) 2(1) obtain p' where p: "p = CHR ''/'' # p'"
      by (cases p) auto
    from 2(1) us p have "nm @ ''/'' = p' @ CHR ''/'' # r" by simp
    from split_at_slash[OF assms(1) this] p assms(3) show ?thesis by simp
  qed
next
  assume "prefix (CHR ''/'' # nm @ ''/'') p"
  then show "prefix (CHR ''/'' # nm @ ''/'') (p @ s)"
    by (rule prefix_prefix)
qed

lemma tryRoot_append:
  assumes "CHR ''/'' \<notin> set nm" "p \<noteq> []" "p \<noteq> CHR ''/'' # nm"
    and "segmentEnd s"
  shows "tryRoot nm (p @ s) = tryRoot nm p"
proof -
  have s: "s = [] \<or> hd s = CHR ''/''"
    using assms(4) by (cases s) (auto simp: segmentEnd_def)
  have pre: "prefix (''/'' @ nm @ ''/'') (p @ s) = prefix (''/'' @ nm @ ''/'') p"
    using prefix_root_append[OF assms(1-3) s] by simp
  show ?thesis
  proof (cases "prefix (''/'' @ nm @ ''/'') p")
    case True
    then have "length nm + 2 \<le> length p"
      by (auto dest: prefix_length_le)
    then have "drop (length nm + 2) (p @ s) = drop (length nm + 2) p @ s"
      by simp
    with True pre show ?thesis
      by (simp add: tryRoot_def takeWhile_digits_append segmentEnd_no_digit[OF assms(4)])
  next
    case False
    with pre show ?thesis by (simp add: tryRoot_def)
  qed
qed

lemma majorAt_append:
  assumes "p \<noteq> []" "p \<notin> {''/channels'', ''/guilds'', ''/webhooks''}" "segmentEnd s"
  shows "majorAt (p @ s) = majorAt p"
proof -
  have "tryRoot ''channels'' (p @ s) = tryRoot ''channels'' p"
    using assms by (intro tryRoot_append) auto
  moreover have "tryRoot ''guilds'' (p @ s) = tryRoot ''guilds'' p"
    using assms by (intro tryRoot_append) auto
  moreover have "tryRoot ''webhooks'' (p @ s) = tryRoot ''webhooks'' p"
    using assms by (intro tryRoot_append) auto
  ultimately show ?thesis by (simp only: majorAt_def)
qed

lemma matchMajor_bare_root:
  "p \<in> {''/channels'', ''/guilds'', ''/webhooks''} \<Longrightarrow> matchMajor p = None"
  by (auto simp: majorAt_def tryRoot_def)

lemma matchMajor_found_append:
  "matchMajor pre = Some x \<Longrightarrow> segmentEnd s \<Longrightarrow> matchMajor (pre @ s) = Some x"
proof (induction pre)
  case Nil
  then show ?case by simp
next
  case (Cons c cs)
  from Cons.prems(1) matchMajor_bare_root[of "c # cs"]
  have "c # cs \<notin> {''/channels'', ''/guilds'', ''/webhooks''}" by auto
  then have eq: "majorAt ((c # cs) @ s) = majorAt (c # cs)"
    using Cons.prems(2) by (intro majorAt_append) auto
  show ?case
  proof (cases "majorAt (c # cs)")
    case None
    with Cons eq show ?thesis by simp
  next
    case (Some d)
    with Cons.prems eq show ?thesis by simp
  qed
qed

lemma endsWithRoot_Cons: "endsWithRoot cs \<Longrightarrow> endsWithRoot (c # cs)"
  by (auto simp: endsWithRoot_def suffix_ConsI)

lemma matchMajor_none_append:
  "matchMajor pre = None \<Longrightarrow> \<not> endsWithRoot pre \<Longrightarrow> segmentEnd s
     \<Longrightarrow> matchMajor (pre @ s) = matchMajor s"
proof (induction pre)
  case Nil
  then show ?case by simp
next
  case (Cons c cs)
  from Cons.prems(2) have "c # cs \<notin> {''/channels'', ''/guilds'', ''/webhooks''}"
    by (auto simp: endsWithRoot_def)
  then have eq: "majorAt ((c # cs) @ s) = majorAt (c # cs)"
    using Cons.prems(3) by (intro majorAt_append) auto
  from Cons.prems(1) have none: "majorAt (c # cs) = None" "matchMajor cs = None"
    by (auto split: option.splits)
  from Cons.prems(2) have "\<not> endsWithRoot cs"
    using endsWithRoot_Cons by blast
  with Cons.IH none Cons.prems(3) eq show ?case by simp
qed

lemma matchMajor_skip_numeric:
  assumes "numeric d"
  shows "matchMajor (CHR ''/'' # d @ post) = matchMajor post"
proof -
  have digits: "list_all isDigit e \<Longrightarrow> matchMajor (e @ post) = matchMajor post" for e
    by (induction e) (auto simp: majorAt_def tryRoot_def isDigit_def)
  from assms obtain a e where d: "d = a # e" "isDigit a"
    by (cases d) (auto simp: numeric_def)
  then have "majorAt (CHR ''/'' # d @ post) = None"
    by (auto simp: majorAt_def tryRoot_def isDigit_def)
  with digits[of d] assms show ?thesis by (simp add: numeric_def)
qed

lemma tryRoot_before_root:
  assumes "CHR ''/'' \<notin> set nm" "p \<noteq> []" "r \<in> majorRoots"
  shows "tryRoot nm (p @ CHR ''/'' # r @ rest) = tryRoot nm p"
proof (cases "p = CHR ''/'' # nm")
  case True
  from assms(3) have "takeWhile isDigit (r @ rest) = []"
    by (auto simp: majorRoots_def isDigit_def)
  with True show ?thesis by (simp add: tryRoot_def)
next
  case False
  have "segmentEnd (CHR ''/'' # r @ rest)" by (simp add: segmentEnd_def)
  from tryRoot_append[OF assms(1,2) False this] show ?thesis .
qed

lemma majorAt_before_root:
  assumes "p \<noteq> []" "r \<in> majorRoots"
  shows "majorAt (p @ CHR ''/'' # r @ rest) = majorAt p"
proof -
  have "tryRoot ''channels'' (p @ CHR ''/'' # r @ rest) = tryRoot ''channels'' p"
    using assms by (intro tryRoot_before_root) auto
  moreover have "tryRoot ''guilds'' (p @ CHR ''/'' # r @ rest) = tryRoot ''guilds'' p"
    using assms by (intro tryRoot_before_root) auto
  moreover have "tryRoot ''webhooks'' (p @ CHR ''/'' # r @ rest) = tryRoot ''webhooks'' p"
    using assms by (intro tryRoot_before_root) auto
  ultimately show ?thesis by (simp only: majorAt_def)
qed

lemma matchMajor_first_root:
  assumes "matchMajor p = None" "r \<in> majorRoots" "numeric e" "segmentEnd q"
  shows "matchMajor (p @ CHR ''/'' # r @ CHR ''/'' # e @ q) = Some e"
  using assms(1)
proof (induction p)
  case Nil
  from numeric_takeWhile[OF assms(3) segmentEnd_no_digit[OF assms(4)]] assms(2,3)
  show ?case
    by (auto simp: majorRoots_def majorAt_def tryRoot_def numeric_def)
next
  case (Cons c cs)
  from Cons.prems have none: "majorAt (c # cs) = None" "matchMajor cs = None"
    by (auto split: option.splits)
  have "majorAt ((c # cs) @ CHR ''/'' # r @ (CHR ''/'' # e @ q)) = majorAt (c # cs)"
    using assms(2) by (intro majorAt_before_root) auto
  with none Cons.IH show ?case by simp
qed

lemma takeWhile_until:
  "x \<notin> set a \<Longrightarrow> takeWhile (\<lambda>c. c \<noteq> x) (a @ x # r) = a"
  by (induction a) auto

lemma colon_suffix_inj:
  assumes "CHR '':'' \<notin> set a" "CHR '':'' \<notin> set b" "x @ CHR '':'' # a = y @ CHR '':'' # b"
  shows "a = b"
proof -
  from assms(3) have "rev (x @ CHR '':'' # a) = rev (y @ CHR '':'' # b)" by simp
  then have "rev a @ CHR '':'' # rev x = rev b @ CHR '':'' # rev y" by simp
  then have "takeWhile (\<lambda>c. c \<noteq> CHR '':'') (rev a @ CHR '':'' # rev x)
           = takeWhile (\<lambda>c. c \<noteq> CHR '':'') (rev b @ CHR '':'' # rev y)" by simp
  with assms(1,2) have "rev a = rev b" by (simp add: takeWhile_until)
  then show ?thesis by simp
qed

lemma colon_not_digit: "\<not> isDigit CHR '':''"
  by (simp add: isDigit_def)

lemma numeric_no_colon: "numeric e \<Longrightarrow> CHR '':'' \<notin> set e"
  using colon_not_digit by (auto simp: numeric_def list_all_iff)

lemma getRouteKey_same:
  assumes "numeric d1" "numeric d2" "segmentEnd post"
    and "matchMajor pre \<noteq> None \<or> \<not> endsWithRoot pre"
  shows "getRouteKey m (pre @ CHR ''/'' # d1 @ post) = getRouteKey m (pre @ CHR ''/'' # d2 @ post)"
proof -
  have nd: "takeWhile isDigit post = []" using assms(3) by (rule segmentEnd_no_digit)
  have seg: "segmentEnd (CHR ''/'' # d @ post)" for d by (simp add: segmentEnd_def)
  have sl: "takeWhile isDigit (CHR ''/'' # d @ post) = []" for d
    by (simp add: slash_not_digit)
  have r: "replaceIds (pre @ CHR ''/'' # d @ post) = replaceIds pre @ ''/:id'' @ replaceIds post"
    if "numeric d" for d
    using replaceIds_append[OF sl, of pre d] replaceIds_numeric_segment[OF that nd] by simp
  have m: "matchMajor (pre @ CHR ''/'' # d1 @ post) = matchMajor (pre @ CHR ''/'' # d2 @ post)"
  proof (cases "matchMajor pre")
    case None
    with assms(4) have "\<not> endsWithRoot pre" by simp
    from matchMajor_none_append[OF None this seg] matchMajor_skip_numeric assms(1,2)
    show ?thesis by simp
  next
    case (Some x)
    from matchMajor_found_append[OF Some seg] show ?thesis by simp
  qed
  show ?thesis
    by (simp only: getRouteKey_def majorId_def r[OF assms(1)] r[OF assms(2)] m)
qed

lemma getRouteKey_distinct:
  assumes "numeric e1" "numeric e2" "e1 \<noteq> e2" "r1 \<in> majorRoots" "r2 \<in> majorRoots"
    and "matchMajor p1 = None" "matchMajor p2 = None" "segmentEnd q1" "segmentEnd q2"
  shows "getRouteKey m1 (p1 @ CHR ''/'' # r1 @ CHR ''/'' # e1 @ q1)
       \<noteq> getRouteKey m2 (p2 @ CHR ''/'' # r2 @ CHR ''/'' # e2 @ q2)"
proof
  assume eq: "getRouteKey m1 (p1 @ CHR ''/'' # r1 @ CHR ''/'' # e1 @ q1)
            = getRouteKey m2 (p2 @ CHR ''/'' # r2 @ CHR ''/'' # e2 @ q2)"
  have 1: "majorId (p1 @ CHR ''/'' # r1 @ CHR ''/'' # e1 @ q1) = e1"
    using matchMajor_first_root[OF assms(6,4,1,8)] by (simp add: majorId_def)
  have 2: "majorId (p2 @ CHR ''/'' # r2 @ CHR ''/'' # e2 @ q2) = e2"
    using matchMajor_first_root[OF assms(7,5,2,9)] by (simp add: majorId_def)
  from eq have "(m1 @ '':'' @ replaceIds (p1 @ CHR ''/'' # r1 @ CHR ''/'' # e1 @ q1)) @ CHR '':'' # e1
              = (m2 @ '':'' @ replaceIds (p2 @ CHR ''/'' # r2 @ CHR ''/'' # e2 @ q2)) @ CHR '':'' # e2"
    by (simp add: getRouteKey_def 1 2)
  from colon_suffix_inj[OF numeric_no_colon[OF assms(1)] numeric_no_colon[OF assms(2)] this] assms(3)
  show False by simp
qed

text \<open>
  C5.  Two paths that differ only in a numeric segment that is not the major
  identifier (a major identifier was already found further left, or the segment
  does not follow \<open>channels\<close>, \<open>guilds\<close> or \<open>webhooks\<close>) have the same route key for
  the same verb.  Two paths whose major identifier, the first numeric segment
  that follows \<open>channels\<close>, \<open>guilds\<close> or \<open>webhooks\<close>, differs have distinct route keys,
  whatever the verbs and the rest of the paths.
\<close>

theorem getRouteKey_collapses_and_separates:
  "(numeric d1 \<and> numeric d2 \<and> segmentEnd post
      \<and> (matchMajor pre \<noteq> None \<or> \<not> endsWithRoot pre)
      \<longrightarrow> getRouteKey m (pre @ CHR ''/'' # d1 @ post)
           = getRouteKey m (pre @ CHR ''/'' # d2 @ post))
   \<and> (numeric e1 \<and> numeric e2 \<and> e1 \<noteq> e2 \<and> r1 \<in> majorRoots \<and> r2 \<in> majorRoots
        \<and> matchMajor p1 = None \<and> matchMajor p2 = None \<and> segmentEnd q1 \<and> segmentEnd q2
      \<longrightarrow> getRouteKey m1 (p1 @ CHR ''/'' # r1 @ CHR ''/'' # e1 @ q1)
           \<noteq> getRouteKey m2 (p2 @ CHR ''/'' # r2 @ CHR ''/'' # e2 @ q2))"
  using getRouteKey_same getRouteKey_distinct by blast

text \<open>
  The examples of the specification: message ids 222 and 333 in channel 111
  collapse, channels 111 and 999 do not.
\<close>

theorem getRouteKey_collapses_and_separates_witness:
  "getRouteKey ''GET'' ''/channels/111/messages/222''
     = getRouteKey ''GET'' ''/channels/111/messages/333''
   \<and> getRouteKey ''GET'' ''/channels/111/messages''
       \<noteq> getRouteKey ''GET'' ''/channels/999/messages''"
proof -
  have h: "numeric ''222''" "numeric ''333''" "segmentEnd []"
    "matchMajor ''/channels/111/messages'' \<noteq> None"
    "numeric ''111''" "numeric ''999''" "''111'' \<noteq> ''999''" "''channels'' \<in> majorRoots"
    "matchMajor [] = None" "segmentEnd ''/messages''"
    by (simp_all add: numeric_def segmentEnd_def isDigit_def majorRoots_def majorAt_def
          tryRoot_def)
  from h getRouteKey_collapses_and_separates
         [of "''222''" "''333''" "[]" "''/channels/111/messages''" "''GET''"
             "''111''" "''999''" "''channels''" "''channels''" "[]" "[]"
             "''/messages''" "''/messages''" "''GET''" "''GET''"]
  show ?thesis by simp
qed

section \<open>Properties of the validation of options\<close>

lemma isInteger_Ints: "isInteger v = (v \<in> \<int>)"
  by (auto simp: isInteger_def Ints_def)

lemma trim_blank: "(trim u = []) = list_all isSpace u"
proof -
  have "dropWhile isSpace u = []" if "trim u = []"
  proof (rule ccontr)
    assume ne: "dropWhile isSpace u \<noteq> []"
    then have "\<not> isSpace (hd (dropWhile isSpace u))" by (rule hd_dropWhile)
    moreover from ne have "hd (dropWhile isSpace u) \<in> set (dropWhile isSpace u)" by simp
    moreover from that have "\<forall>c\<in>set (dropWhile isSpace u). isSpace c"
      by (simp add: trim_def dropWhile_eq_Nil_conv)
    ultimately show False by blast
  qed
  moreover have "trim u = []" if "dropWhile isSpace u = []"
    unfolding trim_def that by simp
  ultimately have "(trim u = []) = (dropWhile isSpace u = [])" by blast
  then show ?thesis by (simp add: dropWhile_eq_Nil_conv list_all_iff)
qed

lemma authType_valid: "(a \<notin> set VALID_AUTH_TYPES) = (a \<noteq> ''Bot'' \<and> a \<noteq> ''Bearer'')"
  by (simp add: VALID_AUTH_TYPES_def)

lemma version_valid: "(\<not> isInteger v \<or> v \<notin> set VALID_API_VERSIONS) = (v \<notin> {6, 7, 8, 9, 10})"
  by (auto simp: VALID_API_VERSIONS_def isInteger_def)

lemma retries_valid: "(\<not> isInteger r \<or> r < 0) = (r < 0 \<or> r \<notin> \<int>)"
  by (auto simp: isInteger_Ints)

text \<open>
  The guard \<open>timeout <= 0\<close> and "not a positive number" agree on every number
  but NaN, which is not positive and passes the guard.
\<close>

lemma timeout_valid: "ms \<noteq> NaN \<Longrightarrow> leq ms 0 = (\<not> positive ms)"
  by (cases ms) (auto simp: leq_def positive_def)

lemma timeout_NaN: "\<not> leq NaN 0 \<and> \<not> positive NaN"
  by (simp add: leq_def positive_def)

lemma validateOptions_fails_iff:
  assumes "RestOptions.timeout options \<noteq> Some NaN"
  shows "(\<exists>e. validateOptions options = Inl e)
     = (badAuthType options \<or> badVersion options \<or> badRetries options
        \<or> badTimeout options \<or> badUserAgent options)"
proof -
  have t: "leq ms 0 = (\<not> positive ms)" if "RestOptions.timeout options = Some ms" for ms
    using that assms by (intro timeout_valid) auto
  show ?thesis
    unfolding validateOptions_def badAuthType_def badVersion_def badRetries_def badTimeout_def
      badUserAgent_def authType_valid version_valid retries_valid trim_blank
    by (cases "RestOptions.authType options"; cases "RestOptions.version options";
        cases "RestOptions.retries options"; cases "RestOptions.timeout options";
        cases "RestOptions.userAgent options"; simp add: t)
qed

text \<open>
  With a timeout of NaN and nothing else, \<open>createRest\<close> succeeds and the
  configuration holds NaN.
\<close>

lemma createRest_accepts_NaN_timeout:
  "createRest ''token''
     \<lparr>RestOptions.authType = None, version = None, userAgent = None,
      retries = None, timeout = Some NaN\<rparr>
     = Inr \<lparr>config = DEFAULT_OPTIONS\<lparr>timeout := NaN\<rparr>,
            manager = createBucketManager, currentToken = ''token''\<rparr>"
  by (simp add: createRest_def validateOptions_def mergeConfig_def leq_def DEFAULT_OPTIONS_def)

lemma validateOptions_TypeError:
  "validateOptions options = Inl e \<Longrightarrow> \<exists>m. e = TypeError m"
  unfolding validateOptions_def
  by (auto split: option.splits if_splits)

text \<open>
  C8 as stated fails: options whose only property is a blank user agent are
  rejected, although the auth scheme, the version, the retries and the timeout
  are not malformed.
\<close>

theorem blank_userAgent_rejected:
  "createRest ''token''
     \<lparr>RestOptions.authType = None, version = None, userAgent = Some '' '',
      retries = None, timeout = None\<rparr> = Inl (TypeError InvalidUserAgent)
   \<and> \<not> badAuthType \<lparr>RestOptions.authType = None, version = None, userAgent = Some '' '',
                      retries = None, timeout = None\<rparr>
   \<and> \<not> badVersion \<lparr>RestOptions.authType = None, version = None, userAgent = Some '' '',
                     retries = None, timeout = None\<rparr>
   \<and> \<not> badRetries \<lparr>RestOptions.authType = None, version = None, userAgent = Some '' '',
                     retries = None, timeout = None\<rparr>
   \<and> \<not> badTimeout \<lparr>RestOptions.authType = None, version = None, userAgent = Some '' '',
                     retries = None, timeout = None\<rparr>"
  by (simp add: createRest_def validateOptions_def trim_def isSpace_def badAuthType_def
        badVersion_def badRetries_def badTimeout_def)

text \<open>
  C8, amended.  \<open>createRest\<close> fails, with a \<open>TypeError\<close>, if and only if the options
  are malformed: an auth scheme outside the two variants, a version outside the
  enumerated set, retries negative or not an integer, a timeout that is not a
  positive number, or a user agent that is empty or blank; this for all options
  whose timeout is not NaN, nothing being said of a timeout of NaN.  A failure
  is always a \<open>TypeError\<close>, and when \<open>createRest\<close> succeeds, every supplied value is
  in the configuration as it was supplied, and the tracker is fresh.
\<close>

theorem createRest_fails_iff_malformed:
  "(RestOptions.timeout options \<noteq> Some NaN \<longrightarrow>
      ((\<exists>e. createRest token options = Inl e)
        = (badAuthType options \<or> badVersion options \<or> badRetries options
           \<or> badTimeout options \<or> badUserAgent options)))
   \<and> (\<forall>e. createRest token options = Inl e \<longrightarrow> (\<exists>m. e = TypeError m))
   \<and> (\<forall>c. createRest token options = Inr c \<longrightarrow>
          manager c = createBucketManager
          \<and> (\<forall>a. RestOptions.authType options = Some a \<longrightarrow> Config.authType (config c) = a)
          \<and> (\<forall>v. RestOptions.version options = Some v \<longrightarrow> Config.version (config c) = v)
          \<and> (\<forall>r. RestOptions.retries options = Some r \<longrightarrow> Config.retries (config c) = r)
          \<and> (\<forall>ms. RestOptions.timeout options = Some ms \<longrightarrow> Config.timeout (config c) = ms)
          \<and> Config.userAgent (config c) = RestOptions.userAgent options)"
proof (intro conjI allI impI)
  assume n: "RestOptions.timeout options \<noteq> Some NaN"
  have "(\<exists>e. createRest token options = Inl e) = (\<exists>e. validateOptions options = Inl e)"
    by (auto simp: createRest_def split: sum.splits)
  then show "(\<exists>e. createRest token options = Inl e)
      = (badAuthType options \<or> badVersion options \<or> badRetries options
         \<or> badTimeout options \<or> badUserAgent options)"
    by (simp only: validateOptions_fails_iff[OF n])
next
  fix e assume "createRest token options = Inl e"
  then have "validateOptions options = Inl e"
    by (auto simp: createRest_def split: sum.splits)
  then show "\<exists>m. e = TypeError m" by (rule validateOptions_TypeError)
next
  fix c assume c: "createRest token options = Inr c"
  then have cfg: "config c = mergeConfig options" and mgr: "manager c = createBucketManager"
    by (auto simp: createRest_def split: sum.splits)
  show "manager c = createBucketManager" by (rule mgr)
  show "Config.userAgent (config c) = RestOptions.userAgent options"
    by (simp add: cfg mergeConfig_def)
  show "Config.authType (config c) = a" if "RestOptions.authType options = Some a" for a
    using that by (simp add: cfg mergeConfig_def)
  show "Config.version (config c) = v" if "RestOptions.version options = Some v" for v
    using that by (simp add: cfg mergeConfig_def)
  show "Config.retries (config c) = r" if "RestOptions.retries options = Some r" for r
    using that by (simp add: cfg mergeConfig_def)
  show "Config.timeout (config c) = ms" if "RestOptions.timeout options = Some ms" for ms
    using that by (simp add: cfg mergeConfig_def)
qed

text \<open>
  Negative retries are rejected; bearer authentication with version 9, no
  retries and a timeout of half a millisecond is accepted as it is.
\<close>

theorem createRest_fails_iff_malformed_witness:
  "createRest ''token''
     \<lparr>RestOptions.authType = None, version = None, userAgent = None,
      retries = Some (- 1), timeout = None\<rparr> = Inl (TypeError (InvalidRetries (- 1)))
   \<and> createRest ''token''
       \<lparr>RestOptions.authType = Some ''Bearer'', version = Some 9, userAgent = None,
        retries = Some 0, timeout = Some (Finite (1 / 2))\<rparr>
       = Inr \<lparr>config = \<lparr>Config.authType = ''Bearer'', version = 9, retries = 0,
                         timeout = Finite (1 / 2), userAgent = None\<rparr>,
              manager = createBucketManager, currentToken = ''token''\<rparr>"
  using createRest_fails_iff_malformed
          [of "\<lparr>RestOptions.authType = None, version = None, userAgent = None,
                             retries = Some (- 1), timeout = None\<rparr>" "''token''"]
        createRest_fails_iff_malformed
          [of "\<lparr>RestOptions.authType = Some ''Bearer'', version = Some 9,
                             userAgent = None, retries = Some 0,
                             timeout = Some (Finite (1 / 2))\<rparr>" "''token''"]
  by (simp add: createRest_def validateOptions_def mergeConfig_def isInteger_def
        VALID_API_VERSIONS_def VALID_AUTH_TYPES_def leq_def)

section \<open>Properties of the dispatcher\<close>

lemma backoffs_append: "backoffs (xs @ ys) = backoffs xs @ backoffs ys"
  by (induction xs rule: backoffs.induct) simp_all

lemma fetches_append: "fetches (xs @ ys) = fetches xs + fetches ys"
  by (simp add: fetches_def)

lemma sleep_observed:
  "served (sleep site ms w) = served w"
  "server (sleep site ms w) = server w"
  "fetches (trace (sleep site ms w)) = fetches (trace w)"
  "backoffs (trace (sleep Backoff ms w)) = backoffs (trace w) @ [ms]"
  "backoffs (trace (sleep AcquireDelay ms w)) = backoffs (trace w)"
  "backoffs (trace (sleep RetryAfter ms w)) = backoffs (trace w)"
  by (simp_all add: sleep_def fetches_def backoffs_append)

lemma noProcessing_create: "noProcessing createBucketManager"
  by (simp add: noProcessing_def createBucketManager_def)

lemma noProcessing_update: "noProcessing t \<Longrightarrow> noProcessing (update t k d)"
  by (auto simp: noProcessing_def update_def Let_def split: option.splits)

lemma noProcessing_setGlobalReset: "noProcessing t \<Longrightarrow> noProcessing (setGlobalReset t r)"
  by (simp add: noProcessing_def setGlobalReset_def)

lemma noProcessing_get: "noProcessing t \<Longrightarrow> get t key = Some b \<Longrightarrow> processing b = None"
  by (auto simp: noProcessing_def get_def Let_def)

lemma acquire_noProcessing:
  assumes "noProcessing t"
  shows "acquire t key w =
           Some (if getDelay t (clock w) key > 0
                 then sleep AcquireDelay (getDelay t (clock w) key) w else w)"
proof (cases "get t key")
  case None
  then show ?thesis by (subst acquire.simps) (simp add: Let_def)
next
  case (Some b)
  with assms have "processing b = None" by (simp add: noProcessing_get)
  with Some show ?thesis by (subst acquire.simps) (simp add: Let_def)
qed

lemma acquire_returns:
  assumes "noProcessing t"
  obtains w1 where "acquire t key w = Some w1" "served w1 = served w" "server w1 = server w"
    "fetches (trace w1) = fetches (trace w)" "backoffs (trace w1) = backoffs (trace w)"
proof -
  let ?w1 = "if getDelay t (clock w) key > 0
             then sleep AcquireDelay (getDelay t (clock w) key) w else w"
  have "acquire t key w = Some ?w1" using assms by (rule acquire_noProcessing)
  moreover have "served ?w1 = served w" "server ?w1 = server w"
    "fetches (trace ?w1) = fetches (trace w)" "backoffs (trace ?w1) = backoffs (trace w)"
    by (simp_all add: sleep_observed)
  ultimately show thesis by (rule that)
qed

lemma fetch_abort:
  assumes "timerDelay env (Config.timeout cfg) < latency (server w (served w))"
  shows "fst (fetch env cfg w) = Inl AbortError"
    and "served (snd (fetch env cfg w)) = served w + 1"
    and "server (snd (fetch env cfg w)) = server w"
    and "fetches (trace (snd (fetch env cfg w))) = fetches (trace w) + 1"
    and "backoffs (trace (snd (fetch env cfg w))) = backoffs (trace w)"
  using assms by (simp_all add: fetch_def Let_def fetches_append backoffs_append fetches_def)


lemma tryBlock_abort:
  assumes "timerDelay env (Config.timeout cfg) < latency (server w (served w))"
  shows "tryBlock env cfg key (t, w) = (Inl AbortError, t, snd (fetch env cfg w))"
  using fetch_abort(1)[OF assms]
  by (cases "fetch env cfg w") (simp add: tryBlock_def)



lemma createAttachments_oversized:
  assumes "\<exists>f\<in>set fs. maxSize env < length (FileData.data f)"
  shows "\<exists>f\<in>set fs. maxSize env < length (FileData.data f)
           \<and> createAttachments env i fs
               = Inl (FileTooLargeError (FileData.name f) (length (FileData.data f)) (maxSize env))"
  using assms
proof (induction fs arbitrary: i)
  case Nil
  then show ?case by simp
next
  case (Cons f fs)
  show ?case
  proof (cases "maxSize env < length (FileData.data f)")
    case True
    then show ?thesis by (simp add: createFileAttachment_def)
  next
    case False
    with Cons.prems have "\<exists>f\<in>set fs. maxSize env < length (FileData.data f)" by simp
    from Cons.IH[OF this, of "i + 1"] False show ?thesis
      by (auto simp: createFileAttachment_def)
  qed
qed

lemma buildBody_oversized:
  assumes "files opts = Some fs" "\<exists>f\<in>set fs. maxSize env < length (FileData.data f)"
  shows "\<exists>f\<in>set fs. maxSize env < length (FileData.data f)
           \<and> buildBody env opts hs
               = Inl (FileTooLargeError (FileData.name f) (length (FileData.data f)) (maxSize env))"
proof -
  from assms(2) obtain g gs where fs: "fs = g # gs" by (cases fs) auto
  from createAttachments_oversized[OF assms(2), of 0]
  obtain f where "f \<in> set fs" "maxSize env < length (FileData.data f)"
    "createAttachments env 0 fs
       = Inl (FileTooLargeError (FileData.name f) (length (FileData.data f)) (maxSize env))"
    by blast
  with assms(1) fs show ?thesis
    by (intro bexI[of _ f]) (simp_all add: buildBody_def)
qed


text \<open>
  An error thrown by \<open>buildHeaders\<close> ends the call before the body is built and
  before any transfer.
\<close>

lemma request_headers_fail:
  assumes "noProcessing t" "buildHeaders cfg token opts = Inl e"
  shows "\<exists>w'. request env cfg token method route opts retryCount (t, w) = Some (Inl e, t, w')
           \<and> served w' = served w \<and> fetches (trace w') = fetches (trace w)"
proof -
  from assms(1) obtain w1 where w1: "acquire t (getRouteKey method route) w = Some w1"
    "served w1 = served w" "fetches (trace w1) = fetches (trace w)"
    by (rule acquire_returns)
  have "request env cfg token method route opts retryCount (t, w) = Some (Inl e, t, w1)"
    by (subst request.simps) (simp add: w1(1) assms(2))
  with w1(2,3) show ?thesis by blast
qed

lemma buildHeaders_bad_name:
  "buildHeaders DEFAULT_OPTIONS ''token'' uploadBadHeader
     = Inl (TypeError (InvalidHeader ''bad name'' ''x''))"
  by code_simp

lemma buildHeaders_upload:
  "buildHeaders DEFAULT_OPTIONS ''token'' upload
     = Inr [(''User-Agent'', ''DiscordBot (https://github.com/cordbun/cordbun, 0.0.1)''),
            (''Authorization'', ''Bot token'')]"
  by code_simp

lemma buildHeaders_noOptions:
  "buildHeaders DEFAULT_OPTIONS ''token'' noOptions
     = Inr [(''User-Agent'', ''DiscordBot (https://github.com/cordbun/cordbun, 0.0.1)''),
            (''Authorization'', ''Bot token'')]"
  by code_simp

text \<open>
  C3 as stated fails: a request with an attachment above the ceiling and a
  custom header whose name is not valid fails with the \<open>TypeError\<close> of
  \<open>buildHeaders\<close>, which runs before \<open>buildBody\<close>, and not with a
  \<open>FileTooLargeError\<close>.
\<close>

theorem oversized_file_with_bad_header:
  "map_option fst
     (request exampleEnv DEFAULT_OPTIONS ''token'' ''POST'' ''/channels/111/messages''
        uploadBadHeader 0 (createBucketManager, freshWorld failingServer))
     = Some (Inl (TypeError (InvalidHeader ''bad name'' ''x'')))
   \<and> files uploadBadHeader = Some [fiveBytes]
   \<and> maxSize exampleEnv < length (FileData.data fiveBytes)"
proof -
  from request_headers_fail[OF noProcessing_create buildHeaders_bad_name,
         of exampleEnv "''POST''" "''/channels/111/messages''" 0 "freshWorld failingServer"]
  show ?thesis
    by (auto simp: uploadBadHeader_def fiveBytes_def exampleEnv_def)
qed

text \<open>
  C3, amended.  When an attached file is larger than the size ceiling, the call
  fails before \<open>fetch\<close>: the number of transfers started is unchanged and the trace
  has no new transfer.  When moreover the headers of the request can be built,
  the error is the \<open>FileTooLargeError\<close> that carries the name and the size of such
  a file and the ceiling.  The tracker is that of a client (no bucket holds a
  pending promise).
\<close>

theorem oversized_file_fails_before_fetch:
  assumes "noProcessing t" "files opts = Some fs"
    and "\<exists>f\<in>set fs. maxSize env < length (FileData.data f)"
  shows "\<exists>e w'. request env cfg token method route opts retryCount (t, w) = Some (Inl e, t, w')
           \<and> served w' = served w \<and> fetches (trace w') = fetches (trace w)
           \<and> (\<forall>hs. buildHeaders cfg token opts = Inr hs \<longrightarrow>
                 (\<exists>f\<in>set fs. maxSize env < length (FileData.data f)
                    \<and> e = FileTooLargeError (FileData.name f) (length (FileData.data f))
                            (maxSize env)))"
proof (cases "buildHeaders cfg token opts")
  case (Inl e)
  from request_headers_fail[OF assms(1) Inl, of env "method" "route" retryCount w] Inl
  show ?thesis by auto
next
  case (Inr hs)
  from buildBody_oversized[OF assms(2,3), of hs]
  obtain f where f: "f \<in> set fs" "maxSize env < length (FileData.data f)"
    "buildBody env opts hs
       = Inl (FileTooLargeError (FileData.name f) (length (FileData.data f)) (maxSize env))"
    by blast
  from assms(1) obtain w1 where w1: "acquire t (getRouteKey method route) w = Some w1"
    "served w1 = served w" "fetches (trace w1) = fetches (trace w)"
    by (rule acquire_returns)
  have "request env cfg token method route opts retryCount (t, w)
          = Some (Inl (FileTooLargeError (FileData.name f) (length (FileData.data f))
                         (maxSize env)), t, w1)"
    by (subst request.simps) (simp add: w1(1) Inr f(3))
  with f(1,2) w1(2,3) Inr show ?thesis by auto
qed

text \<open>
  The attachment of five bytes against the ceiling of four, with headers that
  can be built: no transfer is started.
\<close>

theorem oversized_file_fails_before_fetch_witness:
  "map_option fst
     (request exampleEnv DEFAULT_OPTIONS ''token'' ''POST'' ''/channels/111/messages''
        upload 0 (createBucketManager, freshWorld failingServer))
     = Some (Inl (FileTooLargeError ''a.png'' 5 4))
   \<and> map_option (\<lambda>res. served (snd (snd res)))
       (request exampleEnv DEFAULT_OPTIONS ''token'' ''POST'' ''/channels/111/messages''
          upload 0 (createBucketManager, freshWorld failingServer))
       = Some 0"
proof -
  have f: "files upload = Some [fiveBytes]" by (simp add: upload_def)
  have "\<exists>f\<in>set [fiveBytes]. maxSize exampleEnv < length (FileData.data f)"
    by (simp add: fiveBytes_def exampleEnv_def)
  from oversized_file_fails_before_fetch
         [OF noProcessing_create f this,
          of DEFAULT_OPTIONS "''token''" "''POST''" "''/channels/111/messages''" 0
             "freshWorld failingServer"]
       buildHeaders_upload
  show ?thesis
    by (auto simp: fiveBytes_def exampleEnv_def freshWorld_def)
qed

lemma request_timeout:
  assumes "noProcessing t" "buildHeaders cfg token opts = Inr hs"
    and "buildBody env opts hs = Inr p"
    and "timerDelay env (Config.timeout cfg) < latency (server w (served w))"
  shows "\<exists>w'. request env cfg token method route opts retryCount (t, w) = Some (Inl AbortError, t, w')
           \<and> served w' = served w + 1 \<and> fetches (trace w') = fetches (trace w) + 1
           \<and> backoffs (trace w') = backoffs (trace w)"
proof -
  from assms(1) obtain w1 where w1: "acquire t (getRouteKey method route) w = Some w1"
    "served w1 = served w" "server w1 = server w" "fetches (trace w1) = fetches (trace w)"
    "backoffs (trace w1) = backoffs (trace w)"
    by (rule acquire_returns)
  from assms(4) w1(2,3)
  have late: "timerDelay env (Config.timeout cfg) < latency (server w1 (served w1))"
    by simp
  have "request env cfg token method route opts retryCount (t, w)
          = Some (Inl AbortError, t, snd (fetch env cfg w1))"
    by (subst request.simps) (simp add: w1(1) assms(2,3) tryBlock_abort[OF late])
  with fetch_abort(2,4,5)[OF late] w1(2,4,5) show ?thesis by simp
qed




text \<open>
  A call of \<open>request\<close> that returns keeps the tracker free of pending promises:
  the tracker of a client stays in the states for which the statements below
  are made.
\<close>

lemma handleRateLimit_noProcessing:
  "noProcessing t \<Longrightarrow> handleRateLimit env response key (t, w) = (e, t', w')
     \<Longrightarrow> noProcessing t'"
  by (auto simp: handleRateLimit_def Let_def noProcessing_update noProcessing_setGlobalReset
           split: option.splits if_splits)

lemma tryBlock_noProcessing:
  "noProcessing t \<Longrightarrow> tryBlock env cfg key (t, w) = (res, t', w') \<Longrightarrow> noProcessing t'"
  by (auto simp: tryBlock_def Let_def noProcessing_update
           dest: handleRateLimit_noProcessing[rotated]
           split: prod.splits sum.splits option.splits if_splits)

lemma request_noProcessing:
  "noProcessing t \<Longrightarrow> request env cfg token verb path opts retryCount (t, w) = Some (res, t', w')
     \<Longrightarrow> noProcessing t'"
proof (induction env cfg token verb path opts retryCount "(t, w)" arbitrary: t w
        rule: request.induct)
  case (1 env cfg token verb path opts retryCount t w)
  from "1.prems"(1) obtain w1 where w1: "acquire t (getRouteKey verb path) w = Some w1"
    by (rule acquire_returns)
  show ?case
  proof (cases "buildHeaders cfg token opts")
    case (Inl e)
    with "1.prems" w1 show ?thesis
      by (subst (asm) request.simps) simp
  next
    case bh: (Inr hs)
    show ?thesis
    proof (cases "buildBody env opts hs")
      case (Inl e)
      with "1.prems" w1 bh show ?thesis
        by (subst (asm) request.simps) simp
    next
      case bb: (Inr payload)
      obtain r t2 w2 where tb: "tryBlock env cfg (getRouteKey verb path) (t, w1) = (r, t2, w2)"
        by (cases "tryBlock env cfg (getRouteKey verb path) (t, w1)") auto
      from tryBlock_noProcessing[OF "1.prems"(1) tb] have t2: "noProcessing t2" .
      show ?thesis
      proof (cases r)
        case (Inr response)
        with "1.prems"(2) w1 bh bb tb t2 show ?thesis
          by (subst (asm) request.simps) simp
      next
        case (Inl error)
        show ?thesis
        proof (cases error)
          case (RateLimitError ra g sc)
          show ?thesis
          proof (cases "real retryCount < Config.retries cfg")
            case True
            from "1.prems"(2) have "request env cfg token verb path opts (retryCount + 1)
                    (t2, sleep RetryAfter (ra * 1000) w2) = Some (res, t', w')"
              by (subst (asm) request.simps)
                 (simp add: w1 bh bb tb Inl RateLimitError True)
            from "1.hyps"(1)[OF refl w1 bh refl bb tb[symmetric] Inl refl
                    RateLimitError True t2 this]
            show ?thesis .
          next
            case False
            with "1.prems"(2) t2 show ?thesis
              by (subst (asm) request.simps)
                 (simp add: w1 bh bb tb Inl RateLimitError)
          qed
        next
          case (RestError st c msg errs rl)
          show ?thesis
          proof (cases "st \<ge> 500 \<and> real retryCount < Config.retries cfg")
            case True
            from "1.prems"(2) have "request env cfg token verb path opts (retryCount + 1)
                    (t2, sleep Backoff (1000 * (real retryCount + 1)) w2) = Some (res, t', w')"
              using True
              by (subst (asm) request.simps)
                 (simp add: w1 bh bb tb Inl RestError)
            from "1.hyps"(2)[OF refl w1 bh refl bb tb[symmetric] Inl refl
                    RestError True t2 this]
            show ?thesis .
          next
            case False
            with "1.prems"(2) t2 show ?thesis
              by (subst (asm) request.simps)
                 (auto simp add: w1 bh bb tb Inl RestError)
          qed
        qed (use "1.prems"(2) t2 in \<open>subst (asm) request.simps,
               simp add: w1 bh bb tb Inl\<close>)+
      qed
    qed
  qed
qed

text \<open>
  C4.  With the default configuration (timeout 15000 ms, three retries) and a
  server whose answer takes 20000 ms, the call makes one transfer, is not
  retried, and fails with the abort error of \<open>fetch\<close>, which is not a \<open>TimeoutError\<close>
  and does not carry the configured timeout.
\<close>

theorem timeout_surfaces_abort_error:
  "map_option fst
     (request exampleEnv DEFAULT_OPTIONS ''token'' ''GET'' ''/gateway'' noOptions 0
        (createBucketManager, freshWorld stalledServer))
     = Some (Inl AbortError)
   \<and> AbortError \<noteq> TimeoutError (Config.timeout DEFAULT_OPTIONS)
   \<and> map_option (\<lambda>res. served (snd (snd res)))
       (request exampleEnv DEFAULT_OPTIONS ''token'' ''GET'' ''/gateway'' noOptions 0
          (createBucketManager, freshWorld stalledServer))
       = Some 1"
proof -
  have b: "buildBody exampleEnv noOptions hs = Inr (NoBody, hs)" for hs
    by (simp add: buildBody_def noOptions_def)
  have late: "timerDelay exampleEnv (Config.timeout DEFAULT_OPTIONS)
                < latency (server (freshWorld stalledServer) (served (freshWorld stalledServer)))"
    by (simp add: timerDelay_def DEFAULT_OPTIONS_def freshWorld_def stalledServer_def)
  from request_timeout[OF noProcessing_create buildHeaders_noOptions b late,
         of "''GET''" "''/gateway''" 0]
  show ?thesis by (auto simp: freshWorld_def)
qed




end
